theory Spec2Isabelle
  imports Complex_Main "HOL-Library.Sublist"
begin

section \<open>Python string operations used by the two front ends\<close>

text \<open>
  A Python \<open>str\<close> is a sequence of code points. It is modelled as a \<open>string\<close>, a list of
  8-bit characters, the character of number \<open>n\<close> being the code point U+00\<open>n\<close>: the type
  holds the texts over U+0000 to U+00FF (ASCII and the Latin-1 supplement), and a text with
  a code point beyond U+00FF has no counterpart in it. The functions below are the \<open>str\<close>
  methods that \<^verbatim>\<open>check_doctors.py\<close> and \<^verbatim>\<open>app.py\<close> call, on every character of the type.
\<close>

text \<open>\<^verbatim>\<open>str.isspace\<close> on one character, which is what \<^verbatim>\<open>strip\<close> and \<^verbatim>\<open>split\<close> test: TAB, LF,
  VT, FF, CR, FS, GS, RS, US, the blank, NEL (U+0085) and the no-break space (U+00A0).\<close>

definition is_space :: "char \<Rightarrow> bool" where
  "is_space c =
     (let n = (of_char c :: nat) in
      (9 \<le> n \<and> n \<le> 13) \<or> (28 \<le> n \<and> n \<le> 32) \<or> n = 133 \<or> n = 160)"

text \<open>\<^verbatim>\<open>s.strip()\<close>\<close>

definition strip :: "string \<Rightarrow> string" where
  "strip s = rev (dropWhile is_space (rev (dropWhile is_space s)))"

text \<open>\<^verbatim>\<open>s.lower()\<close>: the capitals A to Z and U+00C0 to U+00DE, the multiplication sign
  U+00D7 apart, have their small letter 32 places further.\<close>

definition lower_char :: "char \<Rightarrow> char" where
  "lower_char c =
     (let n = (of_char c :: nat) in
      if (65 \<le> n \<and> n \<le> 90) \<or> (192 \<le> n \<and> n \<le> 222 \<and> n \<noteq> 215) then char_of (n + 32) else c)"

definition lower :: "string \<Rightarrow> string" where
  "lower s = map lower_char s"

text \<open>\<^verbatim>\<open>sub in s\<close> for two strings: \<open>sub\<close> occurs in \<open>s\<close> as a contiguous run.\<close>

fun contains :: "string \<Rightarrow> string \<Rightarrow> bool" where
  "contains sub [] = (sub = [])"
| "contains sub (c # cs) = (prefix sub (c # cs) \<or> contains sub cs)"

text \<open>\<^verbatim>\<open>s.replace(old, new)\<close>: the occurrences of \<open>old\<close> are replaced from left to
  right, without overlap. With an empty \<open>old\<close> Python puts \<open>new\<close> before every
  character and at the end.\<close>

fun replace_ne :: "string \<Rightarrow> string \<Rightarrow> string \<Rightarrow> string" where
  "replace_ne old new [] = []"
| "replace_ne old new (c # cs) =
     (if prefix old (c # cs) then new @ replace_ne old new (drop (length old - 1) cs)
      else c # replace_ne old new cs)"

definition replace :: "string \<Rightarrow> string \<Rightarrow> string \<Rightarrow> string" where
  "replace old new s =
     (if old = [] then new @ concat (map (\<lambda>c. c # new) s) else replace_ne old new s)"

text \<open>\<^verbatim>\<open>s.split(c)\<close> for a one-character separator: every separator ends a piece,
  empty pieces are kept.\<close>

function split_on :: "char \<Rightarrow> string \<Rightarrow> string list" where
  "split_on c s =
     (case dropWhile (\<lambda>x. x \<noteq> c) s of
        [] \<Rightarrow> [s]
      | _ # rest \<Rightarrow> takeWhile (\<lambda>x. x \<noteq> c) s # split_on c rest)"
  by pat_completeness auto
termination
proof (relation "measure (\<lambda>(c, s). length s)")
  show "wf (measure (\<lambda>(c, s). length s))" by simp
next
  fix c :: char and s x21 x22
  assume "dropWhile (\<lambda>x. x \<noteq> c) s = x21 # x22"
  then have "length x22 < length (dropWhile (\<lambda>x. x \<noteq> c) s)" by simp
  also have "\<dots> \<le> length s" by (rule length_dropWhile_le)
  finally show "((c, x22), (c, s)) \<in> measure (\<lambda>(c, s). length s)" by simp
qed

declare split_on.simps [simp del]

text \<open>\<^verbatim>\<open>s.split()\<close>: the maximal runs of non-blank characters.\<close>

function split_ws :: "string \<Rightarrow> string list" where
  "split_ws s =
     (case dropWhile is_space s of
        [] \<Rightarrow> []
      | c # cs \<Rightarrow> (c # takeWhile (\<lambda>x. \<not> is_space x) cs) # split_ws (dropWhile (\<lambda>x. \<not> is_space x) cs))"
  by pat_completeness auto
termination
proof (relation "measure length")
  show "wf (measure length)" by simp
next
  fix s :: string and x21 x22
  assume a: "dropWhile is_space s = x21 # x22"
  have "length (dropWhile (\<lambda>x. \<not> is_space x) x22) \<le> length x22"
    by (rule length_dropWhile_le)
  also have "\<dots> < length (dropWhile is_space s)" using a by simp
  also have "\<dots> \<le> length s" by (rule length_dropWhile_le)
  finally show "(dropWhile (\<lambda>x. \<not> is_space x) x22, s) \<in> measure length" by simp
qed

declare split_ws.simps [simp del]

text \<open>\<^verbatim>\<open>sep.join(parts)\<close>\<close>

fun join :: "string \<Rightarrow> string list \<Rightarrow> string" where
  "join sep [] = []"
| "join sep [x] = x"
| "join sep (x # y # ys) = x @ sep @ join sep (y # ys)"

text \<open>\<^verbatim>\<open>s.index(c)\<close> for a character that occurs in \<open>s\<close> (both call sites check
  \<^verbatim>\<open>c in s\<close> first): the position of its first occurrence.\<close>

definition index :: "string \<Rightarrow> char \<Rightarrow> nat" where
  "index s c = length (takeWhile (\<lambda>x. x \<noteq> c) s)"

text \<open>\<^verbatim>\<open>s[i:j]\<close> for indices within \<open>0 .. len(s)\<close>; empty when \<open>j \<le> i\<close>.\<close>

definition slice :: "string \<Rightarrow> nat \<Rightarrow> nat \<Rightarrow> string" where
  "slice s i j = drop i (take j s)"

section \<open>The doctor input parser\<close>

text \<open>\<^verbatim>\<open>@dataclass class Doctor\<close> of \<^verbatim>\<open>check_doctors.py\<close>; \<^verbatim>\<open>app.py\<close> builds a dict with the
  same two keys.\<close>

record Doctor =
  name :: string
  specialty :: "string option"

text \<open>The body of the loop \<^verbatim>\<open>for entry in doctor_input.split(",")\<close> of
  \<^verbatim>\<open>parse_doctors\<close>, one entry after the other, appending to \<^verbatim>\<open>doctors\<close>.\<close>

fun parse_entries :: "string list \<Rightarrow> Doctor list" where
  "parse_entries [] = []"
| "parse_entries (e # es) =
     (let entry = strip e in
      if entry = [] then parse_entries es
      else if CHR ''('' \<in> set entry \<and> CHR '')'' \<in> set entry then
        \<lparr>name = strip (slice entry 0 (index entry CHR ''('')),
         specialty = Some (strip (slice entry (index entry CHR ''('' + 1) (index entry CHR '')'')))\<rparr>
        # parse_entries es
      else \<lparr>name = entry, specialty = None\<rparr> # parse_entries es)"

text \<open>\<^verbatim>\<open>parse_doctors\<close> of \<^verbatim>\<open>check_doctors.py\<close>.\<close>

definition parse_doctors :: "string \<Rightarrow> Doctor list" where
  "parse_doctors doctor_input = parse_entries (split_on CHR '','' doctor_input)"

text \<open>\<^verbatim>\<open>parse_doctors\<close> of \<^verbatim>\<open>app.py\<close>: the same loop, written a second time there; each
  doctor is the dict \<^verbatim>\<open>{"name": ..., "specialty": ...}\<close>.\<close>

fun app_parse_entries :: "string list \<Rightarrow> Doctor list" where
  "app_parse_entries [] = []"
| "app_parse_entries (e # es) =
     (let entry = strip e in
      if entry = [] then app_parse_entries es
      else if CHR ''('' \<in> set entry \<and> CHR '')'' \<in> set entry then
        \<lparr>name = strip (slice entry 0 (index entry CHR ''('')),
         specialty = Some (strip (slice entry (index entry CHR ''('' + 1) (index entry CHR '')'')))\<rparr>
        # app_parse_entries es
      else \<lparr>name = entry, specialty = None\<rparr> # app_parse_entries es)"

definition app_parse_doctors :: "string \<Rightarrow> Doctor list" where
  "app_parse_doctors doctor_input = app_parse_entries (split_on CHR '','' doctor_input)"

section \<open>The registry client: splitting a doctor name\<close>

text \<open>\<^verbatim>\<open>name_parts.split(",", 1)\<close> under the guard \<^verbatim>\<open>"," in name_parts\<close> of its only
  call: the text before the first separator and the text after it.\<close>

definition split_on1 :: "char \<Rightarrow> string \<Rightarrow> string \<times> string" where
  "split_on1 c s = (takeWhile (\<lambda>x. x \<noteq> c) s, tl (dropWhile (\<lambda>x. x \<noteq> c) s))"

text \<open>The first statements of \<^verbatim>\<open>search_npi\<close> (the same in both files): \<open>name_parts\<close>
  is the name without its titles, \<open>split_name\<close> the pair \<open>(first, last)\<close> that the
  request is built from.\<close>

definition name_parts :: "string \<Rightarrow> string" where
  "name_parts nm = strip (replace ''Dr'' [] (replace ''Dr.'' [] nm))"

definition split_name :: "string \<Rightarrow> string \<times> string" where
  "split_name nm =
     (if CHR '','' \<in> set (name_parts nm) then
        (case split_on1 CHR '','' (name_parts nm) of (l, f) \<Rightarrow> (strip f, strip l))
      else
        (let parts = split_ws (name_parts nm) in
         if length parts \<ge> 2 then (hd parts, join '' '' (tl parts))
         else ([], name_parts nm)))"

section \<open>The registry client\<close>

text \<open>A value of the \<^verbatim>\<open>params\<close> dict of a request: a string or an integer.\<close>

datatype param = PStr string | PInt int

type_synonym params = "(string \<times> param) list"

text \<open>
  The body of a registry answer, at the schema that \<^verbatim>\<open>search_npi\<close> reads: each JSON
  object is a record of the keys the code looks up, \<open>None\<close> for a key that is absent
  (\<^verbatim>\<open>.get\<close> then yields its default). Text fields hold strings and \<^verbatim>\<open>primary\<close> a
  boolean, as the registry sends them; a body of another shape is outside this model.
\<close>

record npi_basic =
  first_name :: "string option"
  last_name :: "string option"
  b_credential :: "string option"

record npi_address =
  address_purpose :: "string option"
  address_1 :: "string option"
  a_city :: "string option"
  a_state :: "string option"
  postal_code :: "string option"
  telephone_number :: "string option"

record npi_taxonomy =
  primary :: "bool option"
  desc :: "string option"

record npi_record =
  number :: "string option"
  basic :: "npi_basic option"
  addresses :: "npi_address list option"
  taxonomies :: "npi_taxonomy list option"

record npi_data =
  results :: "npi_record list option"

text \<open>The empty JSON object \<^verbatim>\<open>{}\<close> at each of the three types.\<close>

definition empty_basic :: npi_basic where
  "empty_basic = \<lparr>first_name = None, last_name = None, b_credential = None\<rparr>"

definition empty_address :: npi_address where
  "empty_address = \<lparr>address_purpose = None, address_1 = None, a_city = None, a_state = None,
     postal_code = None, telephone_number = None\<rparr>"

definition empty_taxonomy :: npi_taxonomy where
  "empty_taxonomy = \<lparr>primary = None, desc = None\<rparr>"

text \<open>\<^verbatim>\<open>d.get(key, default)\<close> on a value looked up in a record.\<close>

definition get_or :: "'a option \<Rightarrow> 'a \<Rightarrow> 'a" where
  "get_or v d = (case v of None \<Rightarrow> d | Some x \<Rightarrow> x)"

text \<open>
  What one HTTP GET yields: \<open>Inl msg\<close> when \<^verbatim>\<open>requests.get\<close>, \<^verbatim>\<open>raise_for_status\<close> or
  \<^verbatim>\<open>resp.json()\<close> raises a \<^verbatim>\<open>requests.RequestException\<close> (timeout, connection failure,
  non-2xx status), \<open>msg\<close> being the text of the exception; \<open>Inr body\<close> otherwise.
  The service is a function of the state of the world \<open>'w\<close> and of the request, and
  returns the next state: two requests need not be answered alike.
\<close>

type_synonym 'w npi_service = "'w \<Rightarrow> params \<Rightarrow> (string + npi_data) \<times> 'w"

text \<open>\<^verbatim>\<open>@dataclass class NPIResult\<close> of \<^verbatim>\<open>check_doctors.py\<close>.\<close>

record NPIResult =
  npi :: string
  r_name :: string
  credential :: string
  r_specialty :: string
  address :: string
  city :: string
  state :: string
  zip_code :: string
  phone :: string

text \<open>The dict of one registry record as both front ends output it: the keys
  \<^verbatim>\<open>npi\<close>, \<^verbatim>\<open>name\<close>, \<^verbatim>\<open>credential\<close>, \<^verbatim>\<open>specialty\<close>, \<^verbatim>\<open>location\<close>, \<^verbatim>\<open>phone\<close>.\<close>

record npi_entry =
  e_npi :: string
  e_name :: string
  e_credential :: string
  e_specialty :: string
  e_location :: string
  e_phone :: string

text \<open>The \<^verbatim>\<open>params\<close> dict of \<^verbatim>\<open>search_npi\<close>, in insertion order.\<close>

definition npi_params :: "string \<Rightarrow> string \<Rightarrow> string option \<Rightarrow> int \<Rightarrow> params" where
  "npi_params nm st cty limit =
     (case split_name nm of (first, lst) \<Rightarrow>
        [(''version'', PStr ''2.1''), (''limit'', PInt limit),
         (''enumeration_type'', PStr ''NPI-1''), (''state'', PStr st)]
        @ (if first \<noteq> [] then [(''first_name'', PStr first)] else [])
        @ (if lst \<noteq> [] then [(''last_name'', PStr lst)] else [])
        @ (case cty of None \<Rightarrow> [] | Some c \<Rightarrow> if c \<noteq> [] then [(''city'', PStr c)] else []))"

text \<open>\<^verbatim>\<open>next((a for a in addresses if a.get("address_purpose") == "LOCATION"),
  addresses[0] if addresses else {})\<close>\<close>

definition practice_addr :: "npi_address list \<Rightarrow> npi_address" where
  "practice_addr addrs =
     (case find (\<lambda>a. address_purpose a = Some ''LOCATION'') addrs of
        Some a \<Rightarrow> a
      | None \<Rightarrow> (case addrs of [] \<Rightarrow> empty_address | a # _ \<Rightarrow> a))"

text \<open>\<^verbatim>\<open>next((t for t in taxonomies if t.get("primary")),
  taxonomies[0] if taxonomies else {})\<close>\<close>

definition primary_tax :: "npi_taxonomy list \<Rightarrow> npi_taxonomy" where
  "primary_tax taxs =
     (case find (\<lambda>t. primary t = Some True) taxs of
        Some t \<Rightarrow> t
      | None \<Rightarrow> (case taxs of [] \<Rightarrow> empty_taxonomy | t # _ \<Rightarrow> t))"

text \<open>\<^verbatim>\<open>specialty_name = primary_tax.get("desc", "Unknown")\<close>\<close>

definition specialty_name :: "npi_record \<Rightarrow> string" where
  "specialty_name r = get_or (desc (primary_tax (get_or (taxonomies r) []))) ''Unknown''"

text \<open>The specialty filter: \<^verbatim>\<open>if specialty: if specialty.lower() not in
  specialty_name.lower(): continue\<close>. True when the record is skipped.\<close>

definition filtered_out :: "string option \<Rightarrow> string \<Rightarrow> bool" where
  "filtered_out spec sname =
     (case spec of None \<Rightarrow> False
      | Some s \<Rightarrow> s \<noteq> [] \<and> \<not> contains (lower s) (lower sname))"

text \<open>\<^verbatim>\<open>f"{basic.get('first_name', '')} {basic.get('last_name', '')}".strip()\<close>\<close>

definition display_name :: "npi_record \<Rightarrow> string" where
  "display_name r =
     (let b = get_or (basic r) empty_basic in
      strip (get_or (first_name b) [] @ '' '' @ get_or (last_name b) []))"

text \<open>The \<^verbatim>\<open>NPIResult(...)\<close> that \<^verbatim>\<open>check_doctors.py\<close> builds from one record.\<close>

definition to_result :: "npi_record \<Rightarrow> NPIResult" where
  "to_result r =
     (let b = get_or (basic r) empty_basic;
          pa = practice_addr (get_or (addresses r) []) in
      \<lparr>npi = get_or (number r) [],
       r_name = display_name r,
       credential = get_or (b_credential b) [],
       r_specialty = specialty_name r,
       address = get_or (address_1 pa) [],
       city = get_or (a_city pa) [],
       state = get_or (a_state pa) [],
       zip_code = take 5 (get_or (postal_code pa) []),
       phone = get_or (telephone_number pa) []\<rparr>)"

text \<open>The loop \<^verbatim>\<open>for r in data.get("results", [])\<close> of \<^verbatim>\<open>check_doctors.py\<close>.\<close>

fun collect_results :: "string option \<Rightarrow> npi_record list \<Rightarrow> NPIResult list" where
  "collect_results spec [] = []"
| "collect_results spec (r # rs) =
     (if filtered_out spec (specialty_name r) then collect_results spec rs
      else to_result r # collect_results spec rs)"

text \<open>
  \<^verbatim>\<open>search_npi\<close> of \<^verbatim>\<open>check_doctors.py\<close>. It returns the list of results, the lines it
  prints on the standard error stream, and the next state of the world.
\<close>

definition search_npi ::
  "'w npi_service \<Rightarrow> string \<Rightarrow> string \<Rightarrow> string option \<Rightarrow> string option \<Rightarrow> int \<Rightarrow> 'w
     \<Rightarrow> (NPIResult list \<times> string list) \<times> 'w" where
  "search_npi http nm st cty spec limit w =
     (case http w (npi_params nm st cty limit) of
        (Inl e, w') \<Rightarrow> (([], [''  Warning: NPI lookup error: '' @ e]), w')
      | (Inr data, w') \<Rightarrow> ((collect_results spec (get_or (results data) []), []), w'))"

text \<open>The dict that \<^verbatim>\<open>app.py\<close> builds from one record.\<close>

definition app_to_entry :: "npi_record \<Rightarrow> npi_entry" where
  "app_to_entry r =
     (let b = get_or (basic r) empty_basic;
          pa = practice_addr (get_or (addresses r) []) in
      \<lparr>e_npi = get_or (number r) [],
       e_name = display_name r,
       e_credential = get_or (b_credential b) [],
       e_specialty = specialty_name r,
       e_location = get_or (a_city pa) [] @ '', '' @ get_or (a_state pa) [] @ '' ''
                      @ take 5 (get_or (postal_code pa) []),
       e_phone = get_or (telephone_number pa) []\<rparr>)"

text \<open>The loop \<^verbatim>\<open>for r in data.get("results", [])\<close> of \<^verbatim>\<open>app.py\<close>.\<close>

fun app_collect_results :: "string option \<Rightarrow> npi_record list \<Rightarrow> npi_entry list" where
  "app_collect_results spec [] = []"
| "app_collect_results spec (r # rs) =
     (if filtered_out spec (specialty_name r) then app_collect_results spec rs
      else app_to_entry r # app_collect_results spec rs)"

text \<open>\<^verbatim>\<open>search_npi\<close> of \<^verbatim>\<open>app.py\<close>: \<^verbatim>\<open>except Exception: return []\<close>, nothing printed.\<close>

definition app_search_npi ::
  "'w npi_service \<Rightarrow> string \<Rightarrow> string \<Rightarrow> string option \<Rightarrow> string option \<Rightarrow> int \<Rightarrow> 'w
     \<Rightarrow> npi_entry list \<times> 'w" where
  "app_search_npi http nm st cty spec limit w =
     (case http w (npi_params nm st cty limit) of
        (Inl e, w') \<Rightarrow> ([], w')
      | (Inr data, w') \<Rightarrow> (app_collect_results spec (get_or (results data) []), w'))"

section \<open>The link generator\<close>

text \<open>\<^verbatim>\<open>urllib.parse.quote(name)\<close> with its default \<^verbatim>\<open>safe='/'\<close>: the ASCII letters and
  digits and \<^verbatim>\<open>_.-~/\<close> are kept; every other character is encoded in UTF-8 (one byte below
  U+0080, two bytes from U+0080 to U+00FF) and each byte becomes \<^verbatim>\<open>%XX\<close> with upper-case
  hexadecimal digits.\<close>

definition always_safe :: "char \<Rightarrow> bool" where
  "always_safe c =
     (let n = (of_char c :: nat) in
      (65 \<le> n \<and> n \<le> 90) \<or> (97 \<le> n \<and> n \<le> 122) \<or> (48 \<le> n \<and> n \<le> 57)
      \<or> c \<in> set ''_.-~'')"

definition hex_digit :: "nat \<Rightarrow> char" where
  "hex_digit n = ''0123456789ABCDEF'' ! (n mod 16)"

definition utf8 :: "char \<Rightarrow> nat list" where
  "utf8 c = (let n = (of_char c :: nat) in if n < 128 then [n] else [192 + n div 64, 128 + n mod 64])"

definition percent :: "nat \<Rightarrow> string" where
  "percent b = [CHR ''%'', hex_digit (b div 16), hex_digit (b mod 16)]"

definition quote_char :: "char \<Rightarrow> string" where
  "quote_char c =
     (if always_safe c \<or> c = CHR ''/'' then [c] else concat (map percent (utf8 c)))"

definition quote :: "string \<Rightarrow> string" where
  "quote s = concat (map quote_char s)"

text \<open>\<^verbatim>\<open>str(n)\<close> for an integer, as \<^verbatim>\<open>format\<close> writes \<^verbatim>\<open>{radius}\<close>.\<close>

function digits10 :: "nat \<Rightarrow> string" where
  "digits10 n = (if n < 10 then [char_of (48 + n)] else digits10 (n div 10) @ [char_of (48 + n mod 10)])"
  by pat_completeness auto
termination
  by (relation "measure (\<lambda>n. n)") auto

declare digits10.simps [simp del]

definition int_str :: "int \<Rightarrow> string" where
  "int_str i = (if i < 0 then CHR ''-'' # digits10 (nat (- i)) else digits10 (nat i))"

text \<open>
  \<^verbatim>\<open>str(x)\<close> for a float, as \<^verbatim>\<open>format\<close> writes \<^verbatim>\<open>{lat}\<close> and \<^verbatim>\<open>{lon}\<close>. A float is
  represented by the real number that Python shows for it (the shortest decimal numeral
  that reads back as the same float, of 17 significant digits at most); \<^verbatim>\<open>nan\<close>, the
  infinities and the negative zero have no counterpart. Python writes the digits of that
  numeral: with a point and at least one digit after it from \<open>0.0001\<close> up to, not including,
  \<open>10\<^sup>1\<^sup>6\<close>, and as mantissa and exponent of two digits at least otherwise.
  \<open>frac_digits k f\<close> are the first \<open>k\<close> decimals of \<open>f\<close>, up to the last one that is not zero;
  \<open>up_exp k x\<close> counts the multiplications by ten that bring a small \<open>x\<close> to one or more.
\<close>

fun frac_digits :: "nat \<Rightarrow> real \<Rightarrow> string" where
  "frac_digits 0 f = []"
| "frac_digits (Suc k) f =
     (if f = 0 then []
      else char_of (48 + nat \<lfloor>10 * f\<rfloor>) # frac_digits k (10 * f - of_int \<lfloor>10 * f\<rfloor>))"

fun up_exp :: "nat \<Rightarrow> real \<Rightarrow> nat" where
  "up_exp 0 x = 0"
| "up_exp (Suc k) x = (if x \<ge> 1 then 0 else Suc (up_exp k (10 * x)))"

definition exp_str :: "int \<Rightarrow> string" where
  "exp_str e =
     (if e < 0 then ''-'' else ''+'')
     @ (let ds = digits10 (nat \<bar>e\<bar>) in if length ds < 2 then CHR ''0'' # ds else ds)"

definition sci_str :: "real \<Rightarrow> int \<Rightarrow> string" where
  "sci_str m e =
     digits10 (nat \<lfloor>m\<rfloor>)
     @ (let ds = frac_digits 16 (m - of_int \<lfloor>m\<rfloor>) in if ds = [] then [] else CHR ''.'' # ds)
     @ ''e'' @ exp_str e"

definition pos_float_str :: "real \<Rightarrow> string" where
  "pos_float_str x =
     (if x = 0 then ''0.0''
      else if 1 / 10 ^ 4 \<le> x \<and> x < 10 ^ 16 then
        digits10 (nat \<lfloor>x\<rfloor>) @ ''.''
        @ (let ds = frac_digits 20 (x - of_int \<lfloor>x\<rfloor>) in if ds = [] then ''0'' else ds)
      else if x < 1 then sci_str (x * 10 ^ up_exp 400 x) (- int (up_exp 400 x))
      else (let e = length (digits10 (nat \<lfloor>x\<rfloor>)) - 1 in sci_str (x / 10 ^ e) (int e)))"

definition float_str :: "real \<Rightarrow> string" where
  "float_str x = (if x < 0 then CHR ''-'' # pos_float_str (- x) else pos_float_str x)"

text \<open>
  The number that a decimal numeral denotes, to say what the texts written by \<open>int_str\<close>
  and \<open>float_str\<close> stand for: \<open>dec_nat\<close> for a run of digits, \<open>frac_val\<close> for the digits
  after the point, \<open>signed_val\<close> for an integer numeral with its sign, \<open>decimal_value\<close>
  for a numeral with a point.
\<close>

definition digit_val :: "char \<Rightarrow> nat" where
  "digit_val c = of_char c - 48"

definition dec_nat :: "string \<Rightarrow> nat" where
  "dec_nat ds = foldl (\<lambda>n c. 10 * n + digit_val c) 0 ds"

definition frac_val :: "string \<Rightarrow> real" where
  "frac_val ds = foldr (\<lambda>c v. (real (digit_val c) + v) / 10) ds 0"

definition signed_val :: "string \<Rightarrow> int" where
  "signed_val s =
     (case s of [] \<Rightarrow> 0
      | c # t \<Rightarrow> if c = CHR ''-'' then - int (dec_nat t) else int (dec_nat s))"

definition point_value :: "string \<Rightarrow> real" where
  "point_value t =
     real (dec_nat (takeWhile (\<lambda>c. c \<noteq> CHR ''.'') t))
     + frac_val (drop 1 (dropWhile (\<lambda>c. c \<noteq> CHR ''.'') t))"

definition decimal_value :: "string \<Rightarrow> real" where
  "decimal_value s =
     (case s of [] \<Rightarrow> 0
      | c # t \<Rightarrow> if c = CHR ''-'' then - point_value t else point_value s)"

text \<open>
  A URL template of \<^verbatim>\<open>BCBSTX_SEARCH_URLS\<close>, cut at its replacement fields: \<open>Lit\<close> is
  literal text, \<open>Field\<close> one of the four fields \<^verbatim>\<open>{query}\<close>, \<^verbatim>\<open>{lat}\<close>, \<^verbatim>\<open>{lon}\<close>,
  \<^verbatim>\<open>{radius}\<close>. \<open>template_text\<close> is the template as the source writes it.
\<close>

datatype field = Query | Lat | Lon | Radius

datatype piece = Lit string | Field field

definition field_name :: "field \<Rightarrow> string" where
  "field_name f = (case f of Query \<Rightarrow> ''query'' | Lat \<Rightarrow> ''lat'' | Lon \<Rightarrow> ''lon'' | Radius \<Rightarrow> ''radius'')"

definition template_text :: "piece list \<Rightarrow> string" where
  "template_text ps =
     concat (map (\<lambda>p. case p of Lit s \<Rightarrow> s | Field f \<Rightarrow> ''{'' @ field_name f @ ''}'') ps)"

text \<open>\<^verbatim>\<open>template.format(query=q, lat=la, lon=lo, radius=r)\<close>, the four arguments already
  converted to text.\<close>

definition format_url :: "piece list \<Rightarrow> string \<Rightarrow> string \<Rightarrow> string \<Rightarrow> string \<Rightarrow> string" where
  "format_url ps q la lo r =
     concat (map (\<lambda>p. case p of Lit s \<Rightarrow> s
                    | Field f \<Rightarrow> (case f of Query \<Rightarrow> q | Lat \<Rightarrow> la | Lon \<Rightarrow> lo | Radius \<Rightarrow> r)) ps)"

text \<open>\<^verbatim>\<open>BCBSTX_SEARCH_URLS\<close> (the same dict in both files): key, display name, template.\<close>

definition BCBSTX_SEARCH_URLS :: "(string \<times> string \<times> piece list) list" where
  "BCBSTX_SEARCH_URLS =
    [(''blue_advantage_hmo'', ''Blue Advantage HMO'',
      [Lit ''https://my.providerfinderonline.com/search/name/'', Field Query,
       Lit ''?ci=tx-blueadvantage-retail&network_id=1000128&geo_location='', Field Lat,
       Lit '','', Field Lon, Lit ''&locale=en&corp_code=TX&radius='', Field Radius]),
     (''my_blue_health'', ''My Blue Health'',
      [Lit ''https://my.providerfinderonline.com/search/name/'', Field Query,
       Lit ''?ci=tx-myblue-health&network_id=240000127&geo_location='', Field Lat,
       Lit '','', Field Lon, Lit ''&locale=en&corp_code=TX&radius='', Field Radius])]"

text \<open>A link set: provider key, display name, URL, in the order of the dict.\<close>

type_synonym links = "(string \<times> string \<times> string) list"

text \<open>
  \<^verbatim>\<open>generate_bcbstx_urls\<close> (the same function in both files). The coordinates are Python
  floats, on which no arithmetic is done; the function that writes a float is the argument
  \<open>fstr\<close>, which is \<open>float_str\<close> in Python.
\<close>

definition generate_bcbstx_urls :: "(real \<Rightarrow> string) \<Rightarrow> string \<Rightarrow> real \<Rightarrow> real \<Rightarrow> int \<Rightarrow> links" where
  "generate_bcbstx_urls fstr nm lat lon radius =
     map (\<lambda>(key, label, tmpl).
            (key, label, format_url tmpl (quote nm) (fstr lat) (fstr lon) (int_str radius)))
         BCBSTX_SEARCH_URLS"

definition app_generate_bcbstx_urls :: "(real \<Rightarrow> string) \<Rightarrow> string \<Rightarrow> real \<Rightarrow> real \<Rightarrow> int \<Rightarrow> links" where
  "app_generate_bcbstx_urls fstr nm lat lon radius =
     map (\<lambda>(key, label, tmpl).
            (key, label, format_url tmpl (quote nm) (fstr lat) (fstr lon) (int_str radius)))
         BCBSTX_SEARCH_URLS"

text \<open>\<^verbatim>\<open>UHC_SEARCH_URLS\<close> of \<^verbatim>\<open>app.py\<close>: key, display name, URL.\<close>

definition UHC_SEARCH_URLS :: "(string \<times> string \<times> string) list" where
  "UHC_SEARCH_URLS =
    [(''tx_individual_exchange'', ''UHC TX Individual Exchange'',
      ''https://connect.werally.com/guest/eyJwbGFuTmFtZSI6IlRYIEluZGl2aWR1YWwgRXhjaGFuZ2UgQmVuZWZpdCBQbGFuIiwiZGVsc3lzIjoiOTA4IiwiY292ZXJhZ2VUeXBlIjoibWVkaWNhbCIsInBhcnRuZXJJZCI6InVoYyIsImxhbmd1YWdlIjoiZW4iLCJzaG93Q29zdHMiOnRydWUsImZpcHNDb2RlIjoiNDgifQMQFY_1U6GK3dWzJO0xysxZD0H-Ei_AJ0Wm_n0zlgcUI?planYear=2026''),
     (''tx_kelsey_seybold'', ''UHC TX Kelsey-Seybold'',
      ''https://connect.werally.com/guest/eyJwbGFuTmFtZSI6IlRYIEtlbHNleS1TZXlib2xkIEluZGl2aWR1YWwgRXhjaGFuZ2UgQmVuZWZpdCBQbGFuIiwiZGVsc3lzIjoiOTMzIiwiY292ZXJhZ2VUeXBlIjoibWVkaWNhbCIsInBhcnRuZXJJZCI6InVoYyIsImxhbmd1YWdlIjoiZW4iLCJzaG93Q29zdHMiOnRydWUsImZpcHNDb2RlIjoiNDgifQXmvT5Dh8azZlM00ptmfLp0BrlP0yAn-7TQUdErUzIbs?planYear=2026''),
     (''tx_sanitas_anchor'', ''UHC TX Sanitas Anchor'',
      ''https://connect.werally.com/guest/eyJwbGFuTmFtZSI6IlRYIFNhbml0YXMgQW5jaG9yIEluZGl2aWR1YWwgRXhjaGFuZ2UgQmVuZWZpdCIsImRlbHN5cyI6Ijk0NiIsImNvdmVyYWdlVHlwZSI6Im1lZGljYWwiLCJwYXJ0bmVySWQiOiJ1aGMuZXhjaGFuZ2UiLCJsYW5ndWFnZSI6ImVuIiwic2hvd0Nvc3RzIjp0cnVlLCJmaXBzQ29kZSI6IjQ4In0B_6Q323L9wHzkAf22cjU43lZYKLoyfNzTYw8nrMBL04?planYear=2026'')]"

text \<open>\<^verbatim>\<open>generate_uhc_urls\<close> of \<^verbatim>\<open>app.py\<close>: it takes no argument.\<close>

definition generate_uhc_urls :: links where
  "generate_uhc_urls = map (\<lambda>(key, label, u). (key, label, u)) UHC_SEARCH_URLS"

section \<open>The location resolver\<close>

text \<open>\<^verbatim>\<open>TEXAS_LOCATIONS\<close> of \<^verbatim>\<open>check_doctors.py\<close>: the dict literal, and the dict as a map.\<close>

definition TEXAS_LOCATIONS_items :: "(string \<times> real \<times> real) list" where
  "TEXAS_LOCATIONS_items =
    [(''dallas'', (32.7767, -96.7970)), (''fort worth'', (32.7555, -97.3308)),
     (''houston'', (29.7604, -95.3698)), (''austin'', (30.2672, -97.7431)),
     (''san antonio'', (29.4241, -98.4936)), (''plano'', (33.0198, -96.6989)),
     (''arlington'', (32.7357, -97.1081)), (''irving'', (32.8140, -96.9489)),
     (''frisco'', (33.1507, -96.8236)), (''mckinney'', (33.1972, -96.6397)),
     (''denton'', (33.2148, -97.1331)), (''garland'', (32.9126, -96.6389)),
     (''richardson'', (32.9483, -96.7299)), (''carrollton'', (32.9537, -96.8903)),
     (''lewisville'', (33.0462, -96.9942)), (''el paso'', (31.7619, -106.4850)),
     (''corpus christi'', (27.8006, -97.3964)), (''lubbock'', (33.5779, -101.8552)),
     (''amarillo'', (35.2220, -101.8313)), (''waco'', (31.5493, -97.1467)),
     (''midland'', (31.9973, -102.0779)), (''odessa'', (31.8457, -102.3676)),
     (''beaumont'', (30.0802, -94.1266)), (''tyler'', (32.3513, -95.3011)),
     (''round rock'', (30.5083, -97.6789)), (''sugar land'', (29.6197, -95.6349)),
     (''the woodlands'', (30.1658, -95.4613)), (''katy'', (29.7858, -95.8245)),
     (''pasadena'', (29.6911, -95.2091)), (''mesquite'', (32.7668, -96.5992)),
     (''75201'', (32.7872, -96.7985)), (''75202'', (32.7830, -96.8010)),
     (''76102'', (32.7593, -97.3283)), (''77002'', (29.7545, -95.3592)),
     (''78201'', (29.4650, -98.5254)), (''73301'', (30.3265, -97.7713)),
     (''78701'', (30.2711, -97.7437))]"

definition TEXAS_LOCATIONS :: "string \<rightharpoonup> real \<times> real" where
  "TEXAS_LOCATIONS = map_of TEXAS_LOCATIONS_items"

text \<open>\<^verbatim>\<open>TEXAS_LOCATIONS\<close> of \<^verbatim>\<open>app.py\<close>.\<close>

definition app_TEXAS_LOCATIONS_items :: "(string \<times> real \<times> real) list" where
  "app_TEXAS_LOCATIONS_items =
    [(''dallas'', (32.7767, -96.7970)), (''fort worth'', (32.7555, -97.3308)),
     (''houston'', (29.7604, -95.3698)), (''austin'', (30.2672, -97.7431)),
     (''san antonio'', (29.4241, -98.4936)), (''plano'', (33.0198, -96.6989)),
     (''arlington'', (32.7357, -97.1081)), (''irving'', (32.8140, -96.9489)),
     (''frisco'', (33.1507, -96.8236)), (''mckinney'', (33.1972, -96.6397)),
     (''denton'', (33.2148, -97.1331)), (''richardson'', (32.9483, -96.7299))]"

definition app_TEXAS_LOCATIONS :: "string \<rightharpoonup> real \<times> real" where
  "app_TEXAS_LOCATIONS = map_of app_TEXAS_LOCATIONS_items"

text \<open>The first four statements of \<^verbatim>\<open>geocode_location\<close>: the key that is looked up.
  \<open>strip_state\<close> is the second, third and fourth of them, on the lower-cased and
  stripped text.\<close>

definition strip_state :: "string \<Rightarrow> string" where
  "strip_state l1 =
     (let l2 = replace '' tx'' [] (replace '',tx'' [] (replace '', tx'' [] l1));
          l3 = replace '' texas'' [] (replace '',texas'' [] (replace '', texas'' [] l2))
      in strip l3)"

definition normalize_location :: "string \<Rightarrow> string" where
  "normalize_location location = strip_state (strip (lower location))"

text \<open>
  The geocoding service: \<open>Inl msg\<close> for a \<^verbatim>\<open>requests.RequestException\<close>, \<open>Inr hits\<close> for
  the JSON list of the answer, each hit with its \<^verbatim>\<open>lat\<close> and \<^verbatim>\<open>lon\<close> texts.
\<close>

record geo_hit =
  hit_lat :: string
  hit_lon :: string

type_synonym 'w geo_service = "'w \<Rightarrow> params \<Rightarrow> (string + geo_hit list) \<times> 'w"

text \<open>
  The two \<^verbatim>\<open>ValueError\<close>s that leave \<^verbatim>\<open>geocode_location\<close>: the one its last line raises,
  with its message, and the one that \<^verbatim>\<open>float\<close> raises on a text that is no number
  (it is not a \<^verbatim>\<open>RequestException\<close>, so the \<^verbatim>\<open>except\<close> clause lets it pass).
\<close>

datatype geo_error = LocationNotFound string | FloatError string

text \<open>The location sent to the service: \<^verbatim>\<open>", TX"\<close> is appended unless the input
  mentions the state.\<close>

definition geocode_query :: "string \<Rightarrow> string" where
  "geocode_query location =
     (if \<not> contains ''tx'' (lower location) \<and> \<not> contains ''texas'' (lower location)
      then location @ '', TX'' else location)"

text \<open>The \<^verbatim>\<open>params\<close> dict of the geocoding request.\<close>

definition geocode_params :: "string \<Rightarrow> params" where
  "geocode_params q =
     [(''q'', PStr q), (''format'', PStr ''json''), (''limit'', PInt 1), (''countrycodes'', PStr ''us'')]"

text \<open>
  \<^verbatim>\<open>geocode_location\<close>. \<open>float_of\<close> stands for \<^verbatim>\<open>float\<close> on a string (\<open>None\<close> when it
  raises).
\<close>

definition geocode_location ::
  "'w geo_service \<Rightarrow> (string \<Rightarrow> real option) \<Rightarrow> string \<Rightarrow> 'w \<Rightarrow> (geo_error + real \<times> real) \<times> 'w" where
  "geocode_location http float_of location w =
     (case TEXAS_LOCATIONS (normalize_location location) of
        Some c \<Rightarrow> (Inr c, w)
      | None \<Rightarrow>
          (let q = geocode_query location;
               failure = Inl (LocationNotFound
                 (''Could not geocode: '' @ q @ ''. Use --coords or a major Texas city.''))
           in case http w (geocode_params q) of
                (Inl e, w') \<Rightarrow> (failure, w')
              | (Inr [], w') \<Rightarrow> (failure, w')
              | (Inr (h # _), w') \<Rightarrow>
                  (case float_of (hit_lat h) of
                     None \<Rightarrow> (Inl (FloatError (hit_lat h)), w')
                   | Some la \<Rightarrow>
                       (case float_of (hit_lon h) of
                          None \<Rightarrow> (Inl (FloatError (hit_lon h)), w')
                        | Some lo \<Rightarrow> (Inr (la, lo), w')))))"

section \<open>The orchestrator\<close>

text \<open>The dict that \<^verbatim>\<open>check_doctor\<close> returns for one doctor; \<^verbatim>\<open>app.py\<close> adds the key
  \<^verbatim>\<open>uhc_urls\<close>.\<close>

record check_result =
  doctor :: string
  specialty_filter :: "string option"
  npi_found :: bool
  npi_count :: nat
  npi_results :: "npi_entry list"
  bcbstx_urls :: links

record app_result = check_result +
  uhc_urls :: links

text \<open>The dict comprehension of \<^verbatim>\<open>check_doctor\<close> for one \<^verbatim>\<open>NPIResult\<close>.\<close>

definition to_entry :: "NPIResult \<Rightarrow> npi_entry" where
  "to_entry r =
     \<lparr>e_npi = npi r, e_name = r_name r, e_credential = credential r,
      e_specialty = r_specialty r,
      e_location = city r @ '', '' @ state r @ '' '' @ zip_code r,
      e_phone = phone r\<rparr>"

text \<open>\<^verbatim>\<open>check_doctor\<close> of \<^verbatim>\<open>check_doctors.py\<close>, with the lines written to the standard
  error stream and the next state of the world.\<close>

definition check_doctor ::
  "'w npi_service \<Rightarrow> (real \<Rightarrow> string) \<Rightarrow> Doctor \<Rightarrow> real \<Rightarrow> real \<Rightarrow> int \<Rightarrow> string option \<Rightarrow> 'w
     \<Rightarrow> (check_result \<times> string list) \<times> 'w" where
  "check_doctor http fstr d lat lon radius cty w =
     (case search_npi http (name d) ''TX'' cty (specialty d) 10 w of
        ((rs, err), w') \<Rightarrow>
          ((\<lparr>doctor = name d, specialty_filter = specialty d,
             npi_found = (length rs > 0), npi_count = length rs,
             npi_results = map to_entry (take 5 rs),
             bcbstx_urls = generate_bcbstx_urls fstr (name d) lat lon radius\<rparr>, err), w'))"

text \<open>The loop \<^verbatim>\<open>for doctor in doctors\<close> of \<^verbatim>\<open>main\<close>: one \<^verbatim>\<open>check_doctor\<close> after the
  other, each in the state the one before left.\<close>

fun check_each ::
  "'w npi_service \<Rightarrow> (real \<Rightarrow> string) \<Rightarrow> Doctor list \<Rightarrow> real \<Rightarrow> real \<Rightarrow> int \<Rightarrow> string option \<Rightarrow> 'w
     \<Rightarrow> (check_result list \<times> string list) \<times> 'w" where
  "check_each http fstr [] lat lon radius cty w = (([], []), w)"
| "check_each http fstr (d # ds) lat lon radius cty w =
     (case check_doctor http fstr d lat lon radius cty w of
        ((r, err), w') \<Rightarrow>
          (case check_each http fstr ds lat lon radius cty w' of
             ((rs, errs), w'') \<Rightarrow> ((r # rs, err @ errs), w'')))"

text \<open>What \<^verbatim>\<open>search_npi\<close> returned to each call of that loop, doctor by doctor: the
  registry result lists of the run.\<close>

fun registry_lists ::
  "'w npi_service \<Rightarrow> Doctor list \<Rightarrow> string option \<Rightarrow> 'w \<Rightarrow> NPIResult list list" where
  "registry_lists http [] cty w = []"
| "registry_lists http (d # ds) cty w =
     (case search_npi http (name d) ''TX'' cty (specialty d) 10 w of
        ((rs, err), w') \<Rightarrow> rs # registry_lists http ds cty w')"

text \<open>The loop \<^verbatim>\<open>for doctor in doctors\<close> of \<^verbatim>\<open>search\<close> in \<^verbatim>\<open>app.py\<close>.\<close>

fun app_search_each ::
  "'w npi_service \<Rightarrow> (real \<Rightarrow> string) \<Rightarrow> Doctor list \<Rightarrow> real \<Rightarrow> real \<Rightarrow> int \<Rightarrow> string option \<Rightarrow> 'w
     \<Rightarrow> app_result list \<times> 'w" where
  "app_search_each http fstr [] lat lon radius cty w = ([], w)"
| "app_search_each http fstr (d # ds) lat lon radius cty w =
     (case app_search_npi http (name d) ''TX'' cty (specialty d) 10 w of
        (rs, w') \<Rightarrow>
          (case app_search_each http fstr ds lat lon radius cty w' of
             (out, w'') \<Rightarrow>
               (\<lparr>doctor = name d, specialty_filter = specialty d,
                 npi_found = (length rs > 0), npi_count = length rs,
                 npi_results = take 5 rs,
                 bcbstx_urls = app_generate_bcbstx_urls fstr (name d) lat lon radius,
                 uhc_urls = generate_uhc_urls\<rparr> # out, w'')))"

text \<open>The registry result lists of a run of that loop.\<close>

fun app_registry_lists ::
  "'w npi_service \<Rightarrow> Doctor list \<Rightarrow> string option \<Rightarrow> 'w \<Rightarrow> npi_entry list list" where
  "app_registry_lists http [] cty w = []"
| "app_registry_lists http (d # ds) cty w =
     (case app_search_npi http (name d) ''TX'' cty (specialty d) 10 w of
        (rs, w') \<Rightarrow> rs # app_registry_lists http ds cty w')"

text \<open>
  \<^verbatim>\<open>int(s)\<close> on a string, as \<^verbatim>\<open>search\<close> applies it to the \<^verbatim>\<open>radius\<close> parameter: white
  space around (TAB, LF, VT, FF, CR, the blank, U+0085 and U+00A0; \<^verbatim>\<open>int\<close> does not skip
  FS, GS, RS, US), an optional sign, decimal digits with single underscores between them,
  4300 digits at most (the limit of the interpreter, as it is set by default); \<open>None\<close>
  when Python raises \<^verbatim>\<open>ValueError\<close>.
\<close>

definition is_digit :: "char \<Rightarrow> bool" where
  "is_digit c = (let n = (of_char c :: nat) in 48 \<le> n \<and> n \<le> 57)"

definition int_body_ok :: "string \<Rightarrow> bool" where
  "int_body_ok s =
     (s \<noteq> [] \<and> is_digit (hd s) \<and> is_digit (last s)
      \<and> list_all (\<lambda>c. is_digit c \<or> c = CHR ''_'') s \<and> \<not> contains ''__'' s
      \<and> length (filter is_digit s) \<le> 4300)"

definition int_body_val :: "string \<Rightarrow> int" where
  "int_body_val s = fold (\<lambda>c n. 10 * n + (of_char c - 48)) (filter is_digit s) 0"

definition is_int_space :: "char \<Rightarrow> bool" where
  "is_int_space c =
     (let n = (of_char c :: nat) in (9 \<le> n \<and> n \<le> 13) \<or> n = 32 \<or> n = 133 \<or> n = 160)"

definition py_int :: "string \<Rightarrow> int option" where
  "py_int s =
     (case rev (dropWhile is_int_space (rev (dropWhile is_int_space s))) of
        [] \<Rightarrow> None
      | c # cs \<Rightarrow>
          (let body = (if c = CHR ''-'' \<or> c = CHR ''+'' then cs else c # cs) in
           if int_body_ok body
           then Some (if c = CHR ''-'' then - int_body_val body else int_body_val body)
           else None))"

text \<open>The query string of \<^verbatim>\<open>GET /search\<close>: \<open>None\<close> for a parameter that is not given.\<close>

record search_args =
  q_doctors :: "string option"
  q_location :: "string option"
  q_radius :: "string option"
  q_city :: "string option"

text \<open>The coordinates that \<^verbatim>\<open>search\<close> uses:
  \<^verbatim>\<open>TEXAS_LOCATIONS.get(location, TEXAS_LOCATIONS["dallas"])\<close> with
  \<^verbatim>\<open>location = request.args.get("location", "dallas").lower()\<close>.\<close>

definition app_coords :: "string option \<Rightarrow> real \<times> real" where
  "app_coords loc =
     get_or (app_TEXAS_LOCATIONS (lower (get_or loc ''dallas'')))
            (the (app_TEXAS_LOCATIONS ''dallas''))"

text \<open>\<^verbatim>\<open>radius = int(request.args.get("radius", 25))\<close> and
  \<^verbatim>\<open>city = request.args.get("city", "").strip() or None\<close>.\<close>

definition app_radius :: "search_args \<Rightarrow> int option" where
  "app_radius args = (case q_radius args of None \<Rightarrow> Some 25 | Some s \<Rightarrow> py_int s)"

definition app_city :: "search_args \<Rightarrow> string option" where
  "app_city args = (let c = strip (get_or (q_city args) []) in if c = [] then None else Some c)"

text \<open>
  \<^verbatim>\<open>search\<close> of \<^verbatim>\<open>app.py\<close>: \<open>Inl s\<close> when \<^verbatim>\<open>int\<close> raises \<^verbatim>\<open>ValueError\<close> on the radius
  text \<open>s\<close> (no request has been sent then), \<open>Inr\<close> the list that is returned as JSON.
\<close>

definition app_search ::
  "'w npi_service \<Rightarrow> (real \<Rightarrow> string) \<Rightarrow> search_args \<Rightarrow> 'w \<Rightarrow> (string + app_result list) \<times> 'w" where
  "app_search http fstr args w =
     (let doctors_input = get_or (q_doctors args) [] in
      case app_radius args of
        None \<Rightarrow> (Inl (get_or (q_radius args) []), w)
      | Some radius \<Rightarrow>
          (let cty = app_city args;
               (lat, lon) = app_coords (q_location args)
           in case app_search_each http fstr (app_parse_doctors doctors_input) lat lon radius cty w of
                (out, w') \<Rightarrow> (Inr out, w')))"

section \<open>Properties of the string operations\<close>

lemma split_on_Nil_case: "dropWhile (\<lambda>x. x \<noteq> c) s = [] \<Longrightarrow> split_on c s = [s]"
  using split_on.simps[of c s] by (simp only: list.case)

lemma split_on_Cons_case:
  "dropWhile (\<lambda>x. x \<noteq> c) s = d # rest \<Longrightarrow>
   split_on c s = takeWhile (\<lambda>x. x \<noteq> c) s # split_on c rest"
  using split_on.simps[of c s] by (simp only: list.case)

lemma split_on_no_sep: "c \<notin> set s \<Longrightarrow> split_on c s = [s]"
  by (rule split_on_Nil_case) auto

lemma split_on_append: "c \<notin> set a \<Longrightarrow> split_on c (a @ c # b) = a # split_on c b"
proof -
  assume a: "c \<notin> set a"
  then have "dropWhile (\<lambda>x. x \<noteq> c) (a @ c # b) = c # b"
    by (auto simp: dropWhile_append3)
  from split_on_Cons_case[OF this] a show ?thesis
    by (auto simp: takeWhile_tail)
qed





lemma split_on_join: "es \<noteq> [] \<Longrightarrow> \<forall>e \<in> set es. c \<notin> set e \<Longrightarrow> split_on c (join [c] es) = es"
proof (induction es rule: induct_list012)
  case (3 x y zs)
  then show ?case by (simp add: split_on_append)
qed (simp_all add: split_on_no_sep)

lemma strip_no_trail: "strip x \<noteq> [] \<Longrightarrow> \<not> is_space (last (strip x))"
proof -
  assume ne: "strip x \<noteq> []"
  let ?d = "dropWhile is_space (rev (dropWhile is_space x))"
  from ne have d: "?d \<noteq> []" by (simp add: strip_def)
  then have "\<not> is_space (hd ?d)" by (rule hd_dropWhile)
  moreover have "last (strip x) = hd ?d" using d by (simp add: strip_def last_rev)
  ultimately show ?thesis by simp
qed

lemma dropWhile_snoc_keep: "\<not> P y \<Longrightarrow> \<exists>zs. dropWhile P (xs @ [y]) = zs @ [y]"
  by (induction xs) auto

lemma strip_no_lead: "strip x \<noteq> [] \<Longrightarrow> \<not> is_space (hd (strip x))"
proof -
  assume ne: "strip x \<noteq> []"
  let ?y = "dropWhile is_space x"
  have "?y = [] \<Longrightarrow> strip x = []" by (simp only: strip_def rev.simps dropWhile.simps)
  with ne have y: "?y \<noteq> []" by blast
  then have h: "\<not> is_space (hd ?y)" by (rule hd_dropWhile)
  from y have "rev ?y = rev (tl ?y) @ [hd ?y]" by (metis hd_Cons_tl rev.simps(2))
  with dropWhile_snoc_keep[of is_space "hd ?y" "rev (tl ?y)"] h
  obtain zs where "dropWhile is_space (rev ?y) = zs @ [hd ?y]" by metis
  then have "strip x = hd ?y # rev zs" by (simp add: strip_def)
  with h show ?thesis by simp
qed

lemma split_ws_Nil_case: "dropWhile is_space s = [] \<Longrightarrow> split_ws s = []"
  using split_ws.simps[of s] by (simp only: list.case)

lemma split_ws_Cons_case:
  "dropWhile is_space s = c # cs \<Longrightarrow>
   split_ws s = (c # takeWhile (\<lambda>x. \<not> is_space x) cs) # split_ws (dropWhile (\<lambda>x. \<not> is_space x) cs)"
  using split_ws.simps[of s] by (simp only: list.case)

lemma split_ws_eq_Nil: "split_ws s = [] \<longleftrightarrow> (\<forall>x \<in> set s. is_space x)"
proof (cases "dropWhile is_space s")
  case Nil
  then show ?thesis by (simp add: split_ws_Nil_case)
next
  case (Cons c cs)
  then have "\<not> (\<forall>x \<in> set s. is_space x)" by (metis dropWhile_eq_Nil_conv list.distinct(1))
  then show ?thesis by (simp add: split_ws_Cons_case[OF Cons])
qed

lemma singleton_eq_ConsD: "[t] = a # b \<Longrightarrow> t = a \<and> b = []"
  by simp

lemma split_ws_single:
  assumes "split_ws (strip x) = [t]"
  shows "strip x = t"
proof -
  define s where "s = strip x"
  define r where "r = dropWhile (\<lambda>x. \<not> is_space x) (tl s)"
  define h where "h = hd s # takeWhile (\<lambda>x. \<not> is_space x) (tl s)"
  from assms have ne: "s \<noteq> []" using split_ws_eq_Nil[of s] by (auto simp: s_def)
  then have "\<not> is_space (hd s)" unfolding s_def by (rule strip_no_lead)
  with ne have dw: "dropWhile is_space s = hd s # tl s" by (cases s) auto
  have "split_ws s = h # split_ws r"
    unfolding h_def r_def by (rule split_ws_Cons_case[OF dw])
  with assms have "[t] = h # split_ws r" by (simp only: s_def)
  then have "t = h \<and> split_ws r = []" by (rule singleton_eq_ConsD)
  then have t: "t = h" and r: "split_ws r = []" by (rule conjunct1, rule conjunct2)
  have s: "s = h @ r" using ne by (simp add: h_def r_def)
  have "r = []"
  proof (rule ccontr)
    assume rne: "r \<noteq> []"
    then have "last (h @ r) = last r" by simp
    then have "last s = last r" by (simp only: s)
    moreover have "is_space (last r)" using r rne by (simp add: split_ws_eq_Nil)
    moreover have "\<not> is_space (last s)" using ne unfolding s_def by (rule strip_no_trail)
    ultimately show False by simp
  qed
  with s have "s = h" by simp
  with t show ?thesis by (simp only: s_def)
qed

lemma dropWhile_neq_Nil: "c \<notin> set a \<Longrightarrow> dropWhile (\<lambda>x. x \<noteq> c) a = []"
  by (induction a) auto

lemma split_ws_tokens: "t \<in> set (split_ws s) \<Longrightarrow> t \<noteq> [] \<and> (\<forall>c \<in> set t. \<not> is_space c)"
proof (induction s arbitrary: t rule: split_ws.induct)
  case (1 s)
  show ?case
  proof (cases "dropWhile is_space s")
    case Nil
    with 1(2) show ?thesis by (simp add: split_ws_Nil_case)
  next
    case (Cons c cs)
    then have c: "\<not> is_space c" using hd_dropWhile[of is_space s] by auto
    from 1(2) split_ws_Cons_case[OF Cons]
    have "t = c # takeWhile (\<lambda>x. \<not> is_space x) cs
        \<or> t \<in> set (split_ws (dropWhile (\<lambda>x. \<not> is_space x) cs))" by auto
    then show ?thesis
    proof
      assume "t = c # takeWhile (\<lambda>x. \<not> is_space x) cs"
      with c show ?thesis by (auto dest: set_takeWhileD)
    next
      assume "t \<in> set (split_ws (dropWhile (\<lambda>x. \<not> is_space x) cs))"
      then show ?thesis by (rule 1(1)[OF Cons])
    qed
  qed
qed


section \<open>Properties of the doctor input parser\<close>



lemma takeWhile_neq_id: "c \<notin> set a \<Longrightarrow> takeWhile (\<lambda>x. x \<noteq> c) a = a"
  by (induction a) auto









text \<open>An entry that consists of U+00A0 or U+0085 is blank (\<^verbatim>\<open>str.strip\<close> removes both) and
  gives no doctor.\<close>

lemma parse_doctors_blank_latin1:
  "parse_doctors [CHR 0xA0] = []" "parse_doctors ('' '' @ [CHR 0x85] @ '','' @ [CHR 0xA0]) = []"
  "parse_doctors (''Jane Doe'' @ [CHR 0xA0] @ ''(Cardiology'' @ [CHR 0xA0] @ '')'')
     = [\<lparr>name = ''Jane Doe'', specialty = Some ''Cardiology''\<rparr>]"
  by code_simp+







section \<open>Properties of the name splitting\<close>

lemma split_on1_first: "c \<notin> set a \<Longrightarrow> split_on1 c (a @ c # b) = (a, b)"
  by (simp add: split_on1_def takeWhile_tail dropWhile_append3 takeWhile_neq_id dropWhile_neq_Nil)

lemma split_name_comma:
  "name_parts nm = a @ CHR '','' # b \<Longrightarrow> CHR '','' \<notin> set a \<Longrightarrow> split_name nm = (strip b, strip a)"
  by (simp add: split_name_def split_on1_first)

lemma split_name_tokens:
  "CHR '','' \<notin> set (name_parts nm) \<Longrightarrow> split_ws (name_parts nm) = t # u # us \<Longrightarrow>
   split_name nm = (t, join '' '' (u # us))"
  by (simp add: split_name_def)

lemma split_name_single:
  assumes "CHR '','' \<notin> set (name_parts nm)" and w: "split_ws (name_parts nm) = [t]"
  shows "split_name nm = ([], t)"
proof -
  have "name_parts nm = t" using w unfolding name_parts_def by (rule split_ws_single)
  moreover have "split_name nm = ([], name_parts nm)" using assms by (simp add: split_name_def)
  ultimately show ?thesis by simp
qed

lemma split_name_none:
  "CHR '','' \<notin> set (name_parts nm) \<Longrightarrow> split_ws (name_parts nm) = [] \<Longrightarrow>
   split_name nm = ([], [])"
proof -
  assume c: "CHR '','' \<notin> set (name_parts nm)" and w: "split_ws (name_parts nm) = []"
  have "name_parts nm = []"
  proof (rule ccontr)
    assume ne: "name_parts nm \<noteq> []"
    then have "\<not> is_space (hd (name_parts nm))" unfolding name_parts_def by (rule strip_no_lead)
    moreover have "hd (name_parts nm) \<in> set (name_parts nm)" using ne by simp
    ultimately show False using w by (auto simp: split_ws_eq_Nil)
  qed
  with c w show ?thesis by (simp add: split_name_def)
qed


lemma is_space_codes:
  "is_space c \<longleftrightarrow> (of_char c :: nat) \<in> {9, 10, 11, 12, 13, 28, 29, 30, 31, 32, 133, 160}"
proof -
  have "\<And>n::nat. ((9 \<le> n \<and> n \<le> 13) \<or> (28 \<le> n \<and> n \<le> 32) \<or> n = 133 \<or> n = 160)
      \<longleftrightarrow> n \<in> {9, 10, 11, 12, 13, 28, 29, 30, 31, 32, 133, 160}"
    by (simp only: insert_iff empty_iff) presburger
  then show ?thesis by (simp only: is_space_def Let_def)
qed

lemma dropWhile_all: "list_all P ws \<Longrightarrow> dropWhile P (ws @ r) = dropWhile P r"
  by (induction ws) simp_all

lemma takeWhile_all: "list_all P t \<Longrightarrow> takeWhile P (t @ r) = t @ takeWhile P r"
  by (induction t) simp_all

lemma split_ws_blank: "list_all is_space ws \<Longrightarrow> split_ws ws = []"
  by (simp add: split_ws_eq_Nil list_all_iff)

lemma split_ws_token:
  assumes "list_all is_space ws" "tok \<noteq> []" "list_all (\<lambda>c. \<not> is_space c) tok" "is_space sp"
  shows "split_ws (ws @ tok @ sp # rest) = tok # split_ws rest"
proof -
  from assms(2) obtain c cs where tok: "tok = c # cs" by (cases tok) auto
  with assms(3) have c: "\<not> is_space c" and cs: "list_all (\<lambda>c. \<not> is_space c) cs" by simp_all
  have d: "dropWhile is_space (ws @ tok @ sp # rest) = c # (cs @ sp # rest)"
    using assms(1) c by (simp add: dropWhile_all tok)
  have t: "takeWhile (\<lambda>x. \<not> is_space x) (cs @ sp # rest) = cs"
    using cs assms(4) by (simp add: takeWhile_all)
  have r: "dropWhile (\<lambda>x. \<not> is_space x) (cs @ sp # rest) = sp # rest"
    using cs assms(4) by (simp add: dropWhile_all)
  have s: "split_ws (sp # rest) = split_ws rest"
  proof (cases "dropWhile is_space rest")
    case Nil
    then have "dropWhile is_space (sp # rest) = []" using assms(4) by simp
    then show ?thesis using Nil by (simp only: split_ws_Nil_case)
  next
    case (Cons a b)
    then have "dropWhile is_space (sp # rest) = a # b" using assms(4) by simp
    then show ?thesis using Cons by (simp only: split_ws_Cons_case)
  qed
  have "split_ws (ws @ tok @ sp # rest) = (c # takeWhile (\<lambda>x. \<not> is_space x) (cs @ sp # rest))
      # split_ws (dropWhile (\<lambda>x. \<not> is_space x) (cs @ sp # rest))"
    using d by (rule split_ws_Cons_case)
  then show ?thesis by (simp only: t r s tok)
qed

lemma split_ws_last:
  assumes "list_all is_space ws" "tok \<noteq> []" "list_all (\<lambda>c. \<not> is_space c) tok"
  shows "split_ws (ws @ tok) = [tok]"
proof -
  from assms(2) obtain c cs where tok: "tok = c # cs" by (cases tok) auto
  with assms(3) have c: "\<not> is_space c" and cs: "list_all (\<lambda>c. \<not> is_space c) cs" by simp_all
  have d: "dropWhile is_space (ws @ tok) = c # cs"
    using assms(1) c by (simp add: dropWhile_all tok)
  have t: "takeWhile (\<lambda>x. \<not> is_space x) cs = cs"
    using cs by (simp add: list_all_iff)
  have r: "dropWhile (\<lambda>x. \<not> is_space x) cs = []"
    using cs by (simp add: list_all_iff)
  have s: "split_ws [] = []" by (rule split_ws_Nil_case) simp
  have "split_ws (ws @ tok) = (c # takeWhile (\<lambda>x. \<not> is_space x) cs)
      # split_ws (dropWhile (\<lambda>x. \<not> is_space x) cs)"
    using d by (rule split_ws_Cons_case)
  then show ?thesis by (simp only: t r s tok)
qed

lemma strip_explicit:
  assumes "list_all is_space ws" "list_all is_space ws'"
    "mid = [] \<or> (is_space (hd mid) = False \<and> is_space (last mid) = False)"
  shows "strip (ws @ mid @ ws') = mid"
proof (cases "mid = []")
  case True
  have e: "dropWhile is_space (ws @ [] @ ws') = []"
    using assms(1,2) by (simp add: dropWhile_eq_Nil_conv list_all_iff)
  show ?thesis unfolding True strip_def e by simp
next
  case False
  with assms(3) have h: "\<not> is_space (hd mid)" and l: "\<not> is_space (last mid)" by simp_all
  from False obtain c cs where m: "mid = c # cs" by (cases mid) auto
  have d: "dropWhile is_space (ws @ mid @ ws') = mid @ ws'"
    using assms(1) h by (simp add: dropWhile_all m)
  from False obtain bs b where m2: "mid = bs @ [b]" by (cases mid rule: rev_cases) auto
  have r: "rev (mid @ ws') = rev ws' @ b # rev bs" by (simp add: m2)
  have "list_all is_space (rev ws')" using assms(2) by (simp add: list_all_iff)
  then have e: "dropWhile is_space (rev ws' @ b # rev bs) = b # rev bs"
    using l by (simp add: dropWhile_all m2)
  have "strip (ws @ mid @ ws') = rev (dropWhile is_space (rev (mid @ ws')))"
    by (simp only: strip_def d)
  also have "\<dots> = rev (b # rev bs)" by (simp only: r e)
  also have "\<dots> = mid" by (simp add: m2)
  finally show ?thesis .
qed

lemma replace_absent: "old \<noteq> [] \<Longrightarrow> \<not> sublist old s \<Longrightarrow> replace old new s = s"
proof (induction s)
  case Nil
  then show ?case by (simp add: replace_def)
next
  case (Cons c cs)
  from Cons.prems(2) have np: "\<not> prefix old (c # cs)" by (auto dest: prefix_imp_sublist)
  from Cons.prems(2) have "\<not> sublist old cs" by (auto simp: sublist_Cons_right)
  with Cons.IH Cons.prems(1) have "replace old new cs = cs" by simp
  with np Cons.prems(1) show ?case by (simp add: replace_def)
qed

lemma replace_first:
  assumes "old \<noteq> []" "\<not> sublist old (pre @ butlast old)"
  shows "replace old new (pre @ old @ rest) = pre @ new @ replace old new rest"
  using assms(2)
proof (induction pre)
  case Nil
  from assms(1) obtain c cs where o: "old = c # cs" by (cases old) auto
  show ?case using assms(1) by (simp add: replace_def o)
next
  case (Cons p ps)
  have np: "\<not> prefix old (p # ps @ old @ rest)"
  proof
    assume "prefix old (p # ps @ old @ rest)"
    then have "take (length old) ((p # ps) @ old @ rest) = old"
      by (metis append_Cons append_eq_conv_conj prefix_def)
    moreover have "take (length old) ((p # ps) @ old @ rest)
        = take (length old) ((p # ps) @ butlast old)"
      using assms(1) by (simp add: take_Cons' butlast_conv_take min_def)
    ultimately have "prefix old ((p # ps) @ butlast old)"
      by (metis take_is_prefix)
    then show False using Cons.prems by (auto dest: prefix_imp_sublist)
  qed
  from Cons.prems have "\<not> sublist old (ps @ butlast old)" by (auto simp: sublist_Cons_right)
  with Cons.IH have "replace old new (ps @ old @ rest) = ps @ new @ replace old new rest" by simp
  with np assms(1) show ?case by (simp add: replace_def)
qed


text \<open>
  C2. The name splitting of the registry client, on the name without its \<^verbatim>\<open>Dr.\<close> and
  \<^verbatim>\<open>Dr\<close> substrings and trimmed (\<open>name_parts\<close>): with a comma in it, the trimmed text after the
  first comma is the first name and the trimmed text before it the last name; without a
  comma and with two or more blank-separated tokens, the first token is the first name and
  the other tokens, joined by blanks, the last name; with one token the first name is empty
  and the token is the last name; with none both are empty. The three names of the
  specification split as it says.

  The operations are those of Python on text up to U+00FF:

  \<^item> a blank is one of the characters 9 to 13, 28 to 32, U+0085 and U+00A0;
  \<^item> \<^verbatim>\<open>split()\<close> skips blanks, takes the following characters up to the next blank as a
    token, and goes on behind that blank; blanks alone give no token;
  \<^item> \<^verbatim>\<open>strip()\<close> removes the blanks at both ends, down to a text that neither starts nor ends
    with a blank;
  \<^item> \<^verbatim>\<open>replace(old, new)\<close> replaces the first occurrence of \<^verbatim>\<open>old\<close> and goes on behind it; a text
    without an occurrence is returned as it is;
  \<^item> \<^verbatim>\<open>sep.join\<close> writes \<^verbatim>\<open>sep\<close> between the parts.

  So \<^verbatim>\<open>Jane\<close>, U+00A0, \<^verbatim>\<open>Doe\<close> has the first name \<^verbatim>\<open>Jane\<close> and the last name \<^verbatim>\<open>Doe\<close>; and since
  \<^verbatim>\<open>Dr\<close> is removed wherever it stands, \<^verbatim>\<open>Dr. Andrew Drake\<close> has the last name \<^verbatim>\<open>ake\<close>.
\<close>

theorem split_name_rule:
  "(name_parts n1 = a @ CHR '','' # b \<and> CHR '','' \<notin> set a \<longrightarrow> split_name n1 = (strip b, strip a))
   \<and> (CHR '','' \<notin> set (name_parts n2) \<and> split_ws (name_parts n2) = t # u # us
        \<longrightarrow> split_name n2 = (t, join '' '' (u # us)))
   \<and> (CHR '','' \<notin> set (name_parts n3) \<and> split_ws (name_parts n3) = [t3]
        \<longrightarrow> split_name n3 = ([], t3) \<and> name_parts n3 = t3)
   \<and> (CHR '','' \<notin> set (name_parts n4) \<and> split_ws (name_parts n4) = []
        \<longrightarrow> split_name n4 = ([], []))
   \<and> name_parts n5 = strip (replace ''Dr'' [] (replace ''Dr.'' [] n5))
   \<and> split_name ''Smith, John'' = (''John'', ''Smith'')
   \<and> split_name ''John Smith'' = (''John'', ''Smith'')
   \<and> split_name ''Madonna'' = ([], ''Madonna'')
   \<and> (is_space c \<longleftrightarrow> (of_char c :: nat) \<in> {9, 10, 11, 12, 13, 28, 29, 30, 31, 32, 133, 160})
   \<and> (list_all is_space w1 \<and> k1 \<noteq> [] \<and> list_all (\<lambda>x. \<not> is_space x) k1 \<and> is_space sp
        \<longrightarrow> split_ws (w1 @ k1 @ sp # r1) = k1 # split_ws r1)
   \<and> (list_all is_space w2 \<and> k2 \<noteq> [] \<and> list_all (\<lambda>x. \<not> is_space x) k2
        \<longrightarrow> split_ws (w2 @ k2) = [k2])
   \<and> (list_all is_space w3 \<longrightarrow> split_ws w3 = [])
   \<and> (list_all is_space w4 \<and> list_all is_space w5
        \<and> (mid = [] \<or> (is_space (hd mid) = False \<and> is_space (last mid) = False))
        \<longrightarrow> strip (w4 @ mid @ w5) = mid)
   \<and> (old \<noteq> [] \<and> \<not> sublist old (pre @ butlast old)
        \<longrightarrow> replace old new (pre @ old @ post) = pre @ new @ replace old new post)
   \<and> (old \<noteq> [] \<and> \<not> sublist old s \<longrightarrow> replace old new s = s)
   \<and> join sep [] = [] \<and> join sep [x] = x \<and> join sep (x # y # ys) = x @ sep @ join sep (y # ys)
   \<and> split_name (''Jane'' @ [CHR 0xA0] @ ''Doe'') = (''Jane'', ''Doe'')
   \<and> split_name ''Dr. Andrew Drake'' = (''Andrew'', ''ake'')"
proof (intro conjI impI)
  show "split_name n1 = (strip b, strip a)"
    if "name_parts n1 = a @ CHR '','' # b \<and> CHR '','' \<notin> set a"
    using that by (blast intro: split_name_comma)
  show "split_name n2 = (t, join '' '' (u # us))"
    if "CHR '','' \<notin> set (name_parts n2) \<and> split_ws (name_parts n2) = t # u # us"
    using that by (blast intro: split_name_tokens)
  assume h: "CHR '','' \<notin> set (name_parts n3) \<and> split_ws (name_parts n3) = [t3]"
  then show "split_name n3 = ([], t3)" by (blast intro: split_name_single)
  from h have "split_ws (name_parts n3) = [t3]" by blast
  then show "name_parts n3 = t3" unfolding name_parts_def by (rule split_ws_single)
next
  show "split_name n4 = ([], [])"
    if "CHR '','' \<notin> set (name_parts n4) \<and> split_ws (name_parts n4) = []"
    using that by (blast intro: split_name_none)
  show "name_parts n5 = strip (replace ''Dr'' [] (replace ''Dr.'' [] n5))"
    by (rule name_parts_def)
  show "split_name ''Smith, John'' = (''John'', ''Smith'')" by code_simp
  show "split_name ''John Smith'' = (''John'', ''Smith'')" by code_simp
  show "split_name ''Madonna'' = ([], ''Madonna'')" by code_simp
  show "is_space c \<longleftrightarrow> (of_char c :: nat) \<in> {9, 10, 11, 12, 13, 28, 29, 30, 31, 32, 133, 160}"
    by (rule is_space_codes)
  show "split_ws (w1 @ k1 @ sp # r1) = k1 # split_ws r1"
    if "list_all is_space w1 \<and> k1 \<noteq> [] \<and> list_all (\<lambda>x. \<not> is_space x) k1 \<and> is_space sp"
    using that by (blast intro: split_ws_token)
  show "split_ws (w2 @ k2) = [k2]"
    if "list_all is_space w2 \<and> k2 \<noteq> [] \<and> list_all (\<lambda>x. \<not> is_space x) k2"
    using that by (blast intro: split_ws_last)
  show "split_ws w3 = []" if "list_all is_space w3" using that by (rule split_ws_blank)
  show "strip (w4 @ mid @ w5) = mid"
    if "list_all is_space w4 \<and> list_all is_space w5
        \<and> (mid = [] \<or> (is_space (hd mid) = False \<and> is_space (last mid) = False))"
    using that by (blast intro: strip_explicit)
  show "replace old new (pre @ old @ post) = pre @ new @ replace old new post"
    if "old \<noteq> [] \<and> \<not> sublist old (pre @ butlast old)"
    using that by (blast intro: replace_first)
  show "replace old new s = s" if "old \<noteq> [] \<and> \<not> sublist old s"
    using that by (blast intro: replace_absent)
  show "join sep [] = []" "join sep [x] = x" "join sep (x # y # ys) = x @ sep @ join sep (y # ys)"
    by simp_all
  show "split_name (''Jane'' @ [CHR 0xA0] @ ''Doe'') = (''Jane'', ''Doe'')" by code_simp
  show "split_name ''Dr. Andrew Drake'' = (''Andrew'', ''ake'')" by code_simp
qed


text \<open>Four names, one for each case: a comma, three tokens, one token, no token; and one
  text for each of the laws of \<^verbatim>\<open>split\<close>, \<^verbatim>\<open>strip\<close> and \<^verbatim>\<open>replace\<close>.\<close>

theorem split_name_rule_witness:
  "split_name ''Dr. Welby, Marcus'' = (''Marcus'', ''Welby'')
   \<and> split_name ''Dr Marcus van Welby'' = (''Marcus'', ''van Welby'')
   \<and> split_name ''  Cher '' = ([], ''Cher'')
   \<and> split_name ''Dr. '' = ([], [])
   \<and> split_ws ('' '' @ ''Marcus'' @ CHR 0xA0 # ''van Welby'') = ''Marcus'' # split_ws ''van Welby''
   \<and> split_ws ([CHR 0x09, CHR 0x85] @ ''Welby'') = [''Welby'']
   \<and> split_ws [CHR 0x0A, CHR 0x1C, CHR 0xA0] = []
   \<and> strip ([CHR 0xA0] @ ''a b'' @ [CHR 0x09]) = ''a b''
   \<and> replace ''Dr'' ''x'' (''A '' @ ''Dr'' @ '' Drake'') = ''A '' @ ''x'' @ replace ''Dr'' ''x'' '' Drake''
   \<and> replace ''Dr.'' [] ''Dr Marcus'' = ''Dr Marcus''"
proof -
  have h1: "name_parts ''Dr. Welby, Marcus'' = ''Welby'' @ CHR '','' # '' Marcus''
      \<and> CHR '','' \<notin> set ''Welby''" by code_simp
  have h2: "CHR '','' \<notin> set (name_parts ''Dr Marcus van Welby'')
      \<and> split_ws (name_parts ''Dr Marcus van Welby'') = ''Marcus'' # ''van'' # [''Welby'']"
    by code_simp
  have h3: "CHR '','' \<notin> set (name_parts ''  Cher '') \<and> split_ws (name_parts ''  Cher '') = [''Cher'']"
    by code_simp
  have h4: "CHR '','' \<notin> set (name_parts ''Dr. '') \<and> split_ws (name_parts ''Dr. '') = []"
    by code_simp
  have h5: "list_all is_space '' '' \<and> ''Marcus'' \<noteq> [] \<and> list_all (\<lambda>x. \<not> is_space x) ''Marcus''
      \<and> is_space (CHR 0xA0)" by code_simp
  have h6: "list_all is_space [CHR 0x09, CHR 0x85] \<and> ''Welby'' \<noteq> []
      \<and> list_all (\<lambda>x. \<not> is_space x) ''Welby''" by code_simp
  have h7: "list_all is_space [CHR 0x0A, CHR 0x1C, CHR 0xA0]" by code_simp
  have h8: "list_all is_space [CHR 0xA0] \<and> list_all is_space [CHR 0x09]
      \<and> (''a b'' = [] \<or> (is_space (hd ''a b'') = False \<and> is_space (last ''a b'') = False))"
    by code_simp
  have h9: "''Dr'' \<noteq> [] \<and> \<not> sublist ''Dr'' (''A '' @ butlast ''Dr'')" by code_simp
  have h10: "''Dr.'' \<noteq> [] \<and> \<not> sublist ''Dr.'' ''Dr Marcus''" by code_simp
  have v: "strip '' Marcus'' = ''Marcus''" "strip ''Welby'' = ''Welby''"
    "join '' '' (''van'' # [''Welby'']) = ''van Welby''"
    by code_simp+
  note t = split_name_rule[where ?n1.0 = "''Dr. Welby, Marcus''" and a = "''Welby''"
      and b = "'' Marcus''" and ?n2.0 = "''Dr Marcus van Welby''" and t = "''Marcus''"
      and u = "''van''" and us = "[''Welby'']" and ?n3.0 = "''  Cher ''" and ?t3.0 = "''Cher''"
      and ?n4.0 = "''Dr. ''" and ?w1.0 = "'' ''" and ?k1.0 = "''Marcus''" and sp = "CHR 0xA0"
      and ?r1.0 = "''van Welby''" and ?w2.0 = "[CHR 0x09, CHR 0x85]" and ?k2.0 = "''Welby''"
      and ?w3.0 = "[CHR 0x0A, CHR 0x1C, CHR 0xA0]" and ?w4.0 = "[CHR 0xA0]" and mid = "''a b''"
      and ?w5.0 = "[CHR 0x09]" and old = "''Dr''" and pre = "''A ''" and new = "''x''"
      and post = "'' Drake''"]
  note u = split_name_rule[where old = "''Dr.''" and s = "''Dr Marcus''" and new = "[]"]
  note e14 = u[THEN conjunct2, THEN conjunct2, THEN conjunct2, THEN conjunct2, THEN conjunct2,
      THEN conjunct2, THEN conjunct2, THEN conjunct2, THEN conjunct2, THEN conjunct2,
      THEN conjunct2, THEN conjunct2, THEN conjunct2, THEN conjunct2]
  note d1 = t[THEN conjunct2]
  note d2 = d1[THEN conjunct2]
  note d3 = d2[THEN conjunct2]
  note d9 = d3[THEN conjunct2, THEN conjunct2, THEN conjunct2, THEN conjunct2, THEN conjunct2,
      THEN conjunct2]
  note d10 = d9[THEN conjunct2]
  note d11 = d10[THEN conjunct2]
  note d12 = d11[THEN conjunct2]
  note d13 = d12[THEN conjunct2]
  note k1 = t[THEN conjunct1, THEN mp, OF h1]
  note k2 = d1[THEN conjunct1, THEN mp, OF h2]
  note k3 = d2[THEN conjunct1, THEN mp, OF h3, THEN conjunct1]
  note k4 = d3[THEN conjunct1, THEN mp, OF h4]
  note k5 = d9[THEN conjunct1, THEN mp, OF h5]
  note k6 = d10[THEN conjunct1, THEN mp, OF h6]
  note k7 = d11[THEN conjunct1, THEN mp, OF h7]
  note k8 = d12[THEN conjunct1, THEN mp, OF h8]
  note k9 = d13[THEN conjunct1, THEN mp, OF h9]
  note k10 = e14[THEN conjunct1, THEN mp, OF h10]
  have c1: "split_name ''Dr. Welby, Marcus'' = (''Marcus'', ''Welby'')"
    using k1 by (simp only: v)
  have c2: "split_name ''Dr Marcus van Welby'' = (''Marcus'', ''van Welby'')"
    using k2 by (simp only: v)
  show ?thesis
    by (intro conjI) (rule c1 c2 k3 k4 k5 k6 k7 k8 k9 k10)+
qed

section \<open>Properties of the registry client\<close>

lemma find_first: "P a \<Longrightarrow> \<forall>b \<in> set pre. \<not> P b \<Longrightarrow> find P (pre @ a # post) = Some a"
  by (induction pre) auto

lemma find_none: "\<forall>b \<in> set xs. \<not> P b \<Longrightarrow> find P xs = None"
  by (induction xs) auto

lemma practice_addr_first:
  "address_purpose a = Some ''LOCATION'' \<Longrightarrow> \<forall>b \<in> set pre. address_purpose b \<noteq> Some ''LOCATION''
   \<Longrightarrow> practice_addr (pre @ a # post) = a"
  by (simp add: practice_addr_def find_first)

lemma practice_addr_fallback:
  "\<forall>b \<in> set (a # rest). address_purpose b \<noteq> Some ''LOCATION'' \<Longrightarrow> practice_addr (a # rest) = a"
  using find_none[of "a # rest" "\<lambda>a. address_purpose a = Some ''LOCATION''"]
  by (simp add: practice_addr_def)

lemma practice_addr_Nil: "practice_addr [] = empty_address"
  by (simp add: practice_addr_def)

lemma primary_tax_first:
  "primary t = Some True \<Longrightarrow> \<forall>u \<in> set pre. primary u \<noteq> Some True
   \<Longrightarrow> primary_tax (pre @ t # post) = t"
  by (simp add: primary_tax_def find_first)

lemma primary_tax_fallback:
  "\<forall>u \<in> set (t # rest). primary u \<noteq> Some True \<Longrightarrow> primary_tax (t # rest) = t"
  using find_none[of "t # rest" "\<lambda>t. primary t = Some True"]
  by (simp add: primary_tax_def)

lemma primary_tax_Nil: "primary_tax [] = empty_taxonomy"
  by (simp add: primary_tax_def)

lemma collect_results_filter:
  "collect_results spec rs = map to_result (filter (\<lambda>r. \<not> filtered_out spec (specialty_name r)) rs)"
  by (induction rs) simp_all

lemma app_collect_results_filter:
  "app_collect_results spec rs
     = map app_to_entry (filter (\<lambda>r. \<not> filtered_out spec (specialty_name r)) rs)"
  by (induction rs) simp_all


text \<open>
  C4. Normalisation of a registry record. The practice address is the first address whose
  \<^verbatim>\<open>address_purpose\<close> is \<^verbatim>\<open>"LOCATION"\<close>, the first address when no address has that tag, and
  the empty address when there is no address. The primary taxonomy is the first taxonomy
  flagged \<^verbatim>\<open>primary\<close>, the first taxonomy when none is flagged, and the empty taxonomy when
  there is none. The specialty is the \<^verbatim>\<open>desc\<close> of that taxonomy, and \<^verbatim>\<open>"Unknown"\<close> when it
  has none. City, state and postal code are those of the practice address, the postal code
  cut to its first five characters, in the result of \<^verbatim>\<open>check_doctors.py\<close> and in the
  location text of \<^verbatim>\<open>app.py\<close>. Every record of the answer that passes the specialty
  filter is normalised so, in the order of the answer.
\<close>

theorem normalization_contract:
  "(address_purpose a = Some ''LOCATION'' \<and> (\<forall>b \<in> set pre. address_purpose b \<noteq> Some ''LOCATION'')
      \<longrightarrow> practice_addr (pre @ a # post) = a)
   \<and> ((\<forall>b \<in> set (a2 # rest). address_purpose b \<noteq> Some ''LOCATION'')
      \<longrightarrow> practice_addr (a2 # rest) = a2)
   \<and> practice_addr [] = empty_address
   \<and> (primary t = Some True \<and> (\<forall>u \<in> set tpre. primary u \<noteq> Some True)
      \<longrightarrow> primary_tax (tpre @ t # tpost) = t)
   \<and> ((\<forall>u \<in> set (t2 # trest). primary u \<noteq> Some True) \<longrightarrow> primary_tax (t2 # trest) = t2)
   \<and> primary_tax [] = empty_taxonomy
   \<and> (desc (primary_tax (get_or (taxonomies r1) [])) = None \<longrightarrow> specialty_name r1 = ''Unknown'')
   \<and> (desc (primary_tax (get_or (taxonomies r2) [])) = Some s \<longrightarrow> specialty_name r2 = s)
   \<and> r_specialty (to_result r) = specialty_name r
   \<and> e_specialty (app_to_entry r) = specialty_name r
   \<and> city (to_result r) = get_or (a_city (practice_addr (get_or (addresses r) []))) []
   \<and> state (to_result r) = get_or (a_state (practice_addr (get_or (addresses r) []))) []
   \<and> zip_code (to_result r)
        = take 5 (get_or (postal_code (practice_addr (get_or (addresses r) []))) [])
   \<and> e_location (app_to_entry r)
        = get_or (a_city (practice_addr (get_or (addresses r) []))) [] @ '', ''
          @ get_or (a_state (practice_addr (get_or (addresses r) []))) [] @ '' ''
          @ take 5 (get_or (postal_code (practice_addr (get_or (addresses r) []))) [])
   \<and> collect_results spec rs
        = map to_result (filter (\<lambda>r. \<not> filtered_out spec (specialty_name r)) rs)
   \<and> app_collect_results spec rs
        = map app_to_entry (filter (\<lambda>r. \<not> filtered_out spec (specialty_name r)) rs)"
proof (intro conjI impI)
  show "practice_addr (pre @ a # post) = a"
    if "address_purpose a = Some ''LOCATION'' \<and> (\<forall>b \<in> set pre. address_purpose b \<noteq> Some ''LOCATION'')"
    using that by (blast intro: practice_addr_first)
  show "practice_addr (a2 # rest) = a2"
    if "\<forall>b \<in> set (a2 # rest). address_purpose b \<noteq> Some ''LOCATION''"
    using that by (rule practice_addr_fallback)
  show "practice_addr [] = empty_address" by (rule practice_addr_Nil)
  show "primary_tax (tpre @ t # tpost) = t"
    if "primary t = Some True \<and> (\<forall>u \<in> set tpre. primary u \<noteq> Some True)"
    using that by (blast intro: primary_tax_first)
  show "primary_tax (t2 # trest) = t2" if "\<forall>u \<in> set (t2 # trest). primary u \<noteq> Some True"
    using that by (rule primary_tax_fallback)
  show "primary_tax [] = empty_taxonomy" by (rule primary_tax_Nil)
  show "specialty_name r1 = ''Unknown''" if "desc (primary_tax (get_or (taxonomies r1) [])) = None"
    using that by (simp add: specialty_name_def get_or_def)
  show "specialty_name r2 = s" if "desc (primary_tax (get_or (taxonomies r2) [])) = Some s"
    using that by (simp add: specialty_name_def get_or_def)
  show "r_specialty (to_result r) = specialty_name r" by (simp add: to_result_def Let_def)
  show "e_specialty (app_to_entry r) = specialty_name r" by (simp add: app_to_entry_def Let_def)
  show "city (to_result r) = get_or (a_city (practice_addr (get_or (addresses r) []))) []"
    by (simp add: to_result_def Let_def)
  show "state (to_result r) = get_or (a_state (practice_addr (get_or (addresses r) []))) []"
    by (simp add: to_result_def Let_def)
  show "zip_code (to_result r)
        = take 5 (get_or (postal_code (practice_addr (get_or (addresses r) []))) [])"
    by (simp add: to_result_def Let_def)
  show "e_location (app_to_entry r)
        = get_or (a_city (practice_addr (get_or (addresses r) []))) [] @ '', ''
          @ get_or (a_state (practice_addr (get_or (addresses r) []))) [] @ '' ''
          @ take 5 (get_or (postal_code (practice_addr (get_or (addresses r) []))) [])"
    by (simp add: app_to_entry_def Let_def)
  show "collect_results spec rs
        = map to_result (filter (\<lambda>r. \<not> filtered_out spec (specialty_name r)) rs)"
    by (rule collect_results_filter)
  show "app_collect_results spec rs
        = map app_to_entry (filter (\<lambda>r. \<not> filtered_out spec (specialty_name r)) rs)"
    by (rule app_collect_results_filter)
qed

text \<open>A record with a mailing and a practice address and two taxonomies, the second one
  primary; and the fall-backs on shorter lists.\<close>

theorem normalization_contract_witness:
  "practice_addr
     [\<lparr>address_purpose = Some ''MAILING'', address_1 = Some ''PO Box 1'', a_city = Some ''AUSTIN'',
       a_state = Some ''TX'', postal_code = Some ''787011234'', telephone_number = None\<rparr>,
      \<lparr>address_purpose = Some ''LOCATION'', address_1 = Some ''1 Main St'', a_city = Some ''DALLAS'',
       a_state = Some ''TX'', postal_code = Some ''752011234'', telephone_number = Some ''2145550100''\<rparr>]
     = \<lparr>address_purpose = Some ''LOCATION'', address_1 = Some ''1 Main St'', a_city = Some ''DALLAS'',
       a_state = Some ''TX'', postal_code = Some ''752011234'', telephone_number = Some ''2145550100''\<rparr>
   \<and> practice_addr
     [\<lparr>address_purpose = Some ''MAILING'', address_1 = Some ''PO Box 1'', a_city = Some ''AUSTIN'',
       a_state = Some ''TX'', postal_code = Some ''787011234'', telephone_number = None\<rparr>]
     = \<lparr>address_purpose = Some ''MAILING'', address_1 = Some ''PO Box 1'', a_city = Some ''AUSTIN'',
       a_state = Some ''TX'', postal_code = Some ''787011234'', telephone_number = None\<rparr>
   \<and> primary_tax [\<lparr>primary = Some False, desc = Some ''Internal Medicine''\<rparr>,
                  \<lparr>primary = Some True, desc = Some ''Cardiology''\<rparr>]
     = \<lparr>primary = Some True, desc = Some ''Cardiology''\<rparr>
   \<and> primary_tax [\<lparr>primary = Some False, desc = Some ''Internal Medicine''\<rparr>,
                  \<lparr>primary = None, desc = None\<rparr>]
     = \<lparr>primary = Some False, desc = Some ''Internal Medicine''\<rparr>
   \<and> specialty_name \<lparr>number = Some ''1234567890'', basic = None, addresses = None,
                      taxonomies = Some [\<lparr>primary = None, desc = None\<rparr>]\<rparr> = ''Unknown''
   \<and> specialty_name \<lparr>number = Some ''1234567890'', basic = None,
        addresses = Some [\<lparr>address_purpose = Some ''LOCATION'', address_1 = Some ''1 Main St'',
          a_city = Some ''DALLAS'', a_state = Some ''TX'', postal_code = Some ''752011234'',
          telephone_number = Some ''2145550100''\<rparr>],
        taxonomies = Some [\<lparr>primary = Some False, desc = Some ''Internal Medicine''\<rparr>,
                           \<lparr>primary = Some True, desc = Some ''Cardiology''\<rparr>]\<rparr> = ''Cardiology''
   \<and> zip_code (to_result \<lparr>number = Some ''1234567890'', basic = None,
        addresses = Some [\<lparr>address_purpose = Some ''LOCATION'', address_1 = Some ''1 Main St'',
          a_city = Some ''DALLAS'', a_state = Some ''TX'', postal_code = Some ''752011234'',
          telephone_number = Some ''2145550100''\<rparr>],
        taxonomies = Some [\<lparr>primary = Some False, desc = Some ''Internal Medicine''\<rparr>,
                           \<lparr>primary = Some True, desc = Some ''Cardiology''\<rparr>]\<rparr>) = ''75201''"
proof -
  let ?mail = "\<lparr>address_purpose = Some ''MAILING'', address_1 = Some ''PO Box 1'',
      a_city = Some ''AUSTIN'', a_state = Some ''TX'', postal_code = Some ''787011234'',
      telephone_number = None\<rparr>"
  let ?loc = "\<lparr>address_purpose = Some ''LOCATION'', address_1 = Some ''1 Main St'',
      a_city = Some ''DALLAS'', a_state = Some ''TX'', postal_code = Some ''752011234'',
      telephone_number = Some ''2145550100''\<rparr>"
  let ?t1 = "\<lparr>primary = Some False, desc = Some ''Internal Medicine''\<rparr>"
  let ?t2 = "\<lparr>primary = Some True, desc = Some ''Cardiology''\<rparr>"
  let ?t3 = "\<lparr>primary = None, desc = None :: string option\<rparr>"
  let ?r1 = "\<lparr>number = Some ''1234567890'', basic = None, addresses = None,
      taxonomies = Some [?t3]\<rparr>"
  let ?r2 = "\<lparr>number = Some ''1234567890'', basic = None, addresses = Some [?loc],
      taxonomies = Some [?t1, ?t2]\<rparr>"
  note t = normalization_contract[where a = ?loc and pre = "[?mail]" and post = "[]"
      and ?a2.0 = ?mail and rest = "[]" and t = ?t2 and tpre = "[?t1]" and tpost = "[]"
      and ?t2.0 = ?t1 and trest = "[?t3]" and ?r1.0 = ?r1 and ?r2.0 = ?r2 and s = "''Cardiology''"
      and r = ?r2]
  have h1: "address_purpose ?loc = Some ''LOCATION''
      \<and> (\<forall>b \<in> set [?mail]. address_purpose b \<noteq> Some ''LOCATION'')" by simp
  have h2: "\<forall>b \<in> set (?mail # []). address_purpose b \<noteq> Some ''LOCATION''" by simp
  have h3: "primary ?t2 = Some True \<and> (\<forall>u \<in> set [?t1]. primary u \<noteq> Some True)" by simp
  have h4: "\<forall>u \<in> set (?t1 # [?t3]). primary u \<noteq> Some True" by simp
  have h5: "desc (primary_tax (get_or (taxonomies ?r1) [])) = None"
    by (simp add: primary_tax_def get_or_def)
  have h6: "desc (primary_tax (get_or (taxonomies ?r2) [])) = Some ''Cardiology''"
    by (simp add: primary_tax_def get_or_def)
  have z: "take 5 (get_or (postal_code (practice_addr (get_or (addresses ?r2) []))) []) = ''75201''"
    by (simp add: practice_addr_def get_or_def)
  have c1: "practice_addr ([?mail] @ ?loc # []) = ?loc" using t h1 by blast
  have c2: "practice_addr (?mail # []) = ?mail" using t h2 by blast
  have c3: "primary_tax ([?t1] @ ?t2 # []) = ?t2" using t h3 by blast
  have c4: "primary_tax (?t1 # [?t3]) = ?t1" using t h4 by blast
  have c5: "specialty_name ?r1 = ''Unknown''" using t h5 by blast
  have c6: "specialty_name ?r2 = ''Cardiology''" using t h6 by blast
  have "zip_code (to_result ?r2)
      = take 5 (get_or (postal_code (practice_addr (get_or (addresses ?r2) []))) [])"
    using t by blast
  then have c7: "zip_code (to_result ?r2) = ''75201''" by (simp only: z)
  from c1 c2 c3 c4 c5 c6 c7 show ?thesis by (simp only: append.simps) 
qed

lemma search_npi_failure:
  "http w (npi_params nm st cty limit) = (Inl e, w') \<Longrightarrow>
   search_npi http nm st cty spec limit w = (([], [''  Warning: NPI lookup error: '' @ e]), w')"
  by (simp add: search_npi_def)

lemma app_search_npi_failure:
  "http w (npi_params nm st cty limit) = (Inl e, w') \<Longrightarrow>
   app_search_npi http nm st cty spec limit w = ([], w')"
  by (simp add: app_search_npi_def)

lemma search_npi_no_match:
  "http w (npi_params nm st cty limit) = (Inr data, w') \<Longrightarrow> get_or (results data) [] = [] \<Longrightarrow>
   search_npi http nm st cty spec limit w = (([], []), w')"
  by (simp add: search_npi_def)

lemma app_search_npi_no_match:
  "http w (npi_params nm st cty limit) = (Inr data, w') \<Longrightarrow> get_or (results data) [] = [] \<Longrightarrow>
   app_search_npi http nm st cty spec limit w = ([], w')"
  by (simp add: app_search_npi_def)

text \<open>
  C6. A registry request that ends in a \<^verbatim>\<open>RequestException\<close> (timeout, connection
  failure, non-2xx status) makes \<^verbatim>\<open>search_npi\<close> return the empty list in both front ends
  (\<^verbatim>\<open>check_doctors.py\<close> also prints a warning on the standard error stream); the list is
  the one returned for an answer without results, so the caller cannot tell the two apart.
  The bundle of that doctor then has \<^verbatim>\<open>npi_found\<close> false and \<^verbatim>\<open>npi_count\<close> zero, and the
  loop goes on with the remaining doctors, in the state the failed request left.
\<close>

theorem registry_failure_is_empty:
  "(http w (npi_params nm st cty limit) = (Inl e, w') \<longrightarrow>
      search_npi http nm st cty spec limit w = (([], [''  Warning: NPI lookup error: '' @ e]), w')
      \<and> app_search_npi http nm st cty spec limit w = ([], w')
      \<and> (http0 w (npi_params nm st cty limit) = (Inr data, w') \<and> get_or (results data) [] = [] \<longrightarrow>
           fst (fst (search_npi http nm st cty spec limit w))
             = fst (fst (search_npi http0 nm st cty spec limit w))
           \<and> app_search_npi http nm st cty spec limit w
             = app_search_npi http0 nm st cty spec limit w))
   \<and> (http w (npi_params (name d) ''TX'' cty 10) = (Inl e, w') \<longrightarrow>
      fst (fst (check_doctor http fstr d lat lon radius cty w))
        = \<lparr>doctor = name d, specialty_filter = specialty d, npi_found = False, npi_count = 0,
           npi_results = [], bcbstx_urls = generate_bcbstx_urls fstr (name d) lat lon radius\<rparr>
      \<and> fst (fst (check_each http fstr (d # ds) lat lon radius cty w))
        = \<lparr>doctor = name d, specialty_filter = specialty d, npi_found = False, npi_count = 0,
           npi_results = [], bcbstx_urls = generate_bcbstx_urls fstr (name d) lat lon radius\<rparr>
          # fst (fst (check_each http fstr ds lat lon radius cty w'))
      \<and> fst (app_search_each http fstr (d # ds) lat lon radius cty w)
        = \<lparr>doctor = name d, specialty_filter = specialty d, npi_found = False, npi_count = 0,
           npi_results = [], bcbstx_urls = app_generate_bcbstx_urls fstr (name d) lat lon radius,
           uhc_urls = generate_uhc_urls\<rparr>
          # fst (app_search_each http fstr ds lat lon radius cty w'))"
proof (intro conjI impI)
  assume f: "http w (npi_params nm st cty limit) = (Inl e, w')"
  show a: "search_npi http nm st cty spec limit w
      = (([], [''  Warning: NPI lookup error: '' @ e]), w')"
    using search_npi_failure[where http = http, OF f] .
  show b: "app_search_npi http nm st cty spec limit w = ([], w')"
    using app_search_npi_failure[where http = http, OF f] .
  assume "http0 w (npi_params nm st cty limit) = (Inr data, w') \<and> get_or (results data) [] = []"
  then have n: "http0 w (npi_params nm st cty limit) = (Inr data, w')"
    and r: "get_or (results data) [] = []" by blast+
  show "fst (fst (search_npi http nm st cty spec limit w))
      = fst (fst (search_npi http0 nm st cty spec limit w))"
    using search_npi_no_match[where http = http0 and spec = spec, OF n r] by (simp add: a)
  show "app_search_npi http nm st cty spec limit w = app_search_npi http0 nm st cty spec limit w"
    using app_search_npi_no_match[where http = http0 and spec = spec, OF n r] by (simp add: b)
next
  assume f: "http w (npi_params (name d) ''TX'' cty 10) = (Inl e, w')"
  note a = search_npi_failure[where http = http and spec = "specialty d", OF f]
    and b = app_search_npi_failure[where http = http and spec = "specialty d", OF f]
  show "fst (fst (check_doctor http fstr d lat lon radius cty w))
        = \<lparr>doctor = name d, specialty_filter = specialty d, npi_found = False, npi_count = 0,
           npi_results = [], bcbstx_urls = generate_bcbstx_urls fstr (name d) lat lon radius\<rparr>"
    by (simp add: check_doctor_def a)
  show "fst (fst (check_each http fstr (d # ds) lat lon radius cty w))
        = \<lparr>doctor = name d, specialty_filter = specialty d, npi_found = False, npi_count = 0,
           npi_results = [], bcbstx_urls = generate_bcbstx_urls fstr (name d) lat lon radius\<rparr>
          # fst (fst (check_each http fstr ds lat lon radius cty w'))"
    by (simp add: check_doctor_def a split_beta)
  show "fst (app_search_each http fstr (d # ds) lat lon radius cty w)
        = \<lparr>doctor = name d, specialty_filter = specialty d, npi_found = False, npi_count = 0,
           npi_results = [], bcbstx_urls = app_generate_bcbstx_urls fstr (name d) lat lon radius,
           uhc_urls = generate_uhc_urls\<rparr>
          # fst (app_search_each http fstr ds lat lon radius cty w')"
    by (simp add: b split_beta)
qed

text \<open>A service that times out on the first request and answers the second one: the first
  doctor is reported as not found, the second one as found.\<close>

theorem registry_failure_is_empty_witness:
  "search_npi (\<lambda>w ps. (if w = (0::nat) then Inl ''timeout''
        else Inr \<lparr>results = Some [\<lparr>number = Some ''1'', basic = None, addresses = None,
                                  taxonomies = None\<rparr>]\<rparr>, Suc w))
      ''Jane Doe'' ''TX'' None None 10 0
     = (([], [''  Warning: NPI lookup error: timeout'']), Suc 0)
   \<and> app_search_npi (\<lambda>w ps. (if w = (0::nat) then Inl ''timeout''
        else Inr \<lparr>results = Some [\<lparr>number = Some ''1'', basic = None, addresses = None,
                                  taxonomies = None\<rparr>]\<rparr>, Suc w))
      ''Jane Doe'' ''TX'' None None 10 0
     = ([], Suc 0)
   \<and> fst (fst (search_npi (\<lambda>w ps. (if w = (0::nat) then Inl ''timeout''
        else Inr \<lparr>results = Some [\<lparr>number = Some ''1'', basic = None, addresses = None,
                                  taxonomies = None\<rparr>]\<rparr>, Suc w))
      ''Jane Doe'' ''TX'' None None 10 0))
     = fst (fst (search_npi (\<lambda>w ps. (Inr \<lparr>results = Some []\<rparr>, Suc w))
      ''Jane Doe'' ''TX'' None None 10 (0::nat)))
   \<and> map npi_found (fst (fst (check_each (\<lambda>w ps. (if w = (0::nat) then Inl ''timeout''
        else Inr \<lparr>results = Some [\<lparr>number = Some ''1'', basic = None, addresses = None,
                                  taxonomies = None\<rparr>]\<rparr>, Suc w))
      (\<lambda>x. []) [\<lparr>name = ''Jane Doe'', specialty = None\<rparr>, \<lparr>name = ''John Smith'', specialty = None\<rparr>]
      0 0 25 None 0)))
     = [False, True]
   \<and> map npi_found (fst (app_search_each (\<lambda>w ps. (if w = (0::nat) then Inl ''timeout''
        else Inr \<lparr>results = Some [\<lparr>number = Some ''1'', basic = None, addresses = None,
                                  taxonomies = None\<rparr>]\<rparr>, Suc w))
      (\<lambda>x. []) [\<lparr>name = ''Jane Doe'', specialty = None\<rparr>, \<lparr>name = ''John Smith'', specialty = None\<rparr>]
      0 0 25 None 0))
     = [False, True]"
proof -
  let ?http = "\<lambda>(w::nat) (ps::params). (if w = 0 then Inl ''timeout''
        else Inr \<lparr>results = Some [\<lparr>number = Some ''1'', basic = None, addresses = None,
                                  taxonomies = None\<rparr>]\<rparr>, Suc w)"
  let ?empty = "\<lambda>(w::nat) (ps::params). (Inr \<lparr>results = Some []\<rparr> :: string + npi_data, Suc w)"
  let ?d = "\<lparr>name = ''Jane Doe'', specialty = None\<rparr>"
  let ?d2 = "\<lparr>name = ''John Smith'', specialty = None\<rparr>"
  note t = registry_failure_is_empty[where http = ?http and ?http0.0 = ?empty and w = 0
      and w' = "Suc 0" and e = "''timeout''" and nm = "''Jane Doe''" and st = "''TX''"
      and cty = None and limit = 10 and spec = None and data = "\<lparr>results = Some []\<rparr>"
      and d = ?d and ds = "[?d2]" and fstr = "\<lambda>x. []" and lat = 0 and lon = 0 and radius = 25]
  have h1: "?http 0 (npi_params ''Jane Doe'' ''TX'' None 10) = (Inl ''timeout'', Suc 0)" by simp
  have h2: "?empty 0 (npi_params ''Jane Doe'' ''TX'' None 10) = (Inr \<lparr>results = Some []\<rparr>, Suc 0)
      \<and> get_or (results \<lparr>results = Some []\<rparr>) [] = ([] :: npi_record list)"
    by (simp add: get_or_def)
  have h3: "?http 0 (npi_params (name ?d) ''TX'' None 10) = (Inl ''timeout'', Suc 0)" by simp
  have c1: "search_npi ?http ''Jane Doe'' ''TX'' None None 10 0
      = (([], [''  Warning: NPI lookup error: '' @ ''timeout'']), Suc 0)"
    using t h1 by blast
  have c2: "app_search_npi ?http ''Jane Doe'' ''TX'' None None 10 0 = ([], Suc 0)"
    using t h1 by blast
  have c3: "fst (fst (search_npi ?http ''Jane Doe'' ''TX'' None None 10 0))
      = fst (fst (search_npi ?empty ''Jane Doe'' ''TX'' None None 10 0))"
    using t h1 h2 by blast
  have c4: "fst (fst (check_each ?http (\<lambda>x. []) (?d # [?d2]) 0 0 25 None 0))
      = \<lparr>doctor = name ?d, specialty_filter = specialty ?d, npi_found = False, npi_count = 0,
         npi_results = [], bcbstx_urls = generate_bcbstx_urls (\<lambda>x. []) (name ?d) 0 0 25\<rparr>
        # fst (fst (check_each ?http (\<lambda>x. []) [?d2] 0 0 25 None (Suc 0)))"
    using t h3 by blast
  have c5: "fst (app_search_each ?http (\<lambda>x. []) (?d # [?d2]) 0 0 25 None 0)
      = \<lparr>doctor = name ?d, specialty_filter = specialty ?d, npi_found = False, npi_count = 0,
         npi_results = [], bcbstx_urls = app_generate_bcbstx_urls (\<lambda>x. []) (name ?d) 0 0 25,
         uhc_urls = generate_uhc_urls\<rparr>
        # fst (app_search_each ?http (\<lambda>x. []) [?d2] 0 0 25 None (Suc 0))"
    using t h3 by blast
  have r4: "map npi_found (fst (fst (check_each ?http (\<lambda>x. []) [?d2] 0 0 25 None (Suc 0)))) = [True]"
    by (simp add: check_doctor_def search_npi_def get_or_def filtered_out_def)
  have r5: "map npi_found (fst (app_search_each ?http (\<lambda>x. []) [?d2] 0 0 25 None (Suc 0))) = [True]"
    by (simp add: app_search_npi_def get_or_def filtered_out_def)
  have c4': "map npi_found (fst (fst (check_each ?http (\<lambda>x. []) [?d, ?d2] 0 0 25 None 0)))
      = [False, True]"
    by (simp only: c4 list.map r4) simp
  have c5': "map npi_found (fst (app_search_each ?http (\<lambda>x. []) [?d, ?d2] 0 0 25 None 0))
      = [False, True]"
    by (simp only: c5 list.map r5) simp
  from c1 c2 c3 c4' c5' show ?thesis by simp
qed

section \<open>Properties of the orchestrator\<close>

lemma registry_lists_length: "length (registry_lists http ds cty w) = length ds"
  by (induction ds arbitrary: w) (simp_all add: split_beta)

lemma app_registry_lists_length: "length (app_registry_lists http ds cty w) = length ds"
  by (induction ds arbitrary: w) (simp_all add: split_beta)

lemma check_each_bundles:
  "fst (fst (check_each http fstr ds lat lon radius cty w))
     = map2 (\<lambda>d rs. \<lparr>doctor = name d, specialty_filter = specialty d, npi_found = (rs \<noteq> []),
                      npi_count = length rs, npi_results = map to_entry (take 5 rs),
                      bcbstx_urls = generate_bcbstx_urls fstr (name d) lat lon radius\<rparr>)
         ds (registry_lists http ds cty w)"
  by (induction ds arbitrary: w) (simp_all add: check_doctor_def split_beta)

lemma app_search_each_bundles:
  "fst (app_search_each http fstr ds lat lon radius cty w)
     = map2 (\<lambda>d rs. \<lparr>doctor = name d, specialty_filter = specialty d, npi_found = (rs \<noteq> []),
                      npi_count = length rs, npi_results = take 5 rs,
                      bcbstx_urls = app_generate_bcbstx_urls fstr (name d) lat lon radius,
                      uhc_urls = generate_uhc_urls\<rparr>)
         ds (app_registry_lists http ds cty w)"
  by (induction ds arbitrary: w) (simp_all add: split_beta)

lemma check_each_doctors:
  "map doctor (fst (fst (check_each http fstr ds lat lon radius cty w))) = map name ds"
  by (induction ds arbitrary: w) (simp_all add: check_doctor_def split_beta)

lemma app_search_each_doctors:
  "map doctor (fst (app_search_each http fstr ds lat lon radius cty w)) = map name ds"
  by (induction ds arbitrary: w) (simp_all add: split_beta)


text \<open>
  C1. For every list of doctors and every coordinates, radius and city filter, the loop of
  \<^verbatim>\<open>main\<close> and the loop of \<^verbatim>\<open>search\<close> return one bundle per doctor, in the order of the
  list (a doctor that occurs twice gets two bundles): the bundle of a doctor holds its name
  and specialty filter; with \<open>rs\<close> the list that \<^verbatim>\<open>search_npi\<close> returned for that doctor,
  \<^verbatim>\<open>npi_found\<close> is true exactly when \<open>rs\<close> is not empty, \<^verbatim>\<open>npi_count\<close> is the length of
  \<open>rs\<close>, and \<^verbatim>\<open>npi_results\<close> holds the first five records of \<open>rs\<close>.
\<close>

theorem orchestrator_bundles:
  "fst (fst (check_each http fstr ds lat lon radius cty w))
     = map2 (\<lambda>d rs. \<lparr>doctor = name d, specialty_filter = specialty d, npi_found = (rs \<noteq> []),
                      npi_count = length rs, npi_results = map to_entry (take 5 rs),
                      bcbstx_urls = generate_bcbstx_urls fstr (name d) lat lon radius\<rparr>)
         ds (registry_lists http ds cty w)
   \<and> length (registry_lists http ds cty w) = length ds
   \<and> map doctor (fst (fst (check_each http fstr ds lat lon radius cty w))) = map name ds
   \<and> fst (app_search_each http fstr ds lat lon radius cty w)
     = map2 (\<lambda>d rs. \<lparr>doctor = name d, specialty_filter = specialty d, npi_found = (rs \<noteq> []),
                      npi_count = length rs, npi_results = take 5 rs,
                      bcbstx_urls = app_generate_bcbstx_urls fstr (name d) lat lon radius,
                      uhc_urls = generate_uhc_urls\<rparr>)
         ds (app_registry_lists http ds cty w)
   \<and> length (app_registry_lists http ds cty w) = length ds
   \<and> map doctor (fst (app_search_each http fstr ds lat lon radius cty w)) = map name ds"
  by (intro conjI check_each_bundles registry_lists_length check_each_doctors
      app_search_each_bundles app_registry_lists_length app_search_each_doctors)

section \<open>Properties of the location resolver\<close>

lemma TEXAS_LOCATIONS_distinct: "distinct (map fst TEXAS_LOCATIONS_items)"
  by (simp add: TEXAS_LOCATIONS_items_def)

lemma TEXAS_LOCATIONS_item: "(k, c) \<in> set TEXAS_LOCATIONS_items \<Longrightarrow> TEXAS_LOCATIONS k = Some c"
  unfolding TEXAS_LOCATIONS_def using TEXAS_LOCATIONS_distinct by simp

lemma strip_state_recognized:
  "list_all (\<lambda>k. list_all (\<lambda>sfx. strip_state (k @ sfx) = k)
       ['''', '', tx'', '' tx'', '', texas'', '' texas''])
     (map fst TEXAS_LOCATIONS_items)"
  by code_simp

lemma geocode_location_hit:
  "TEXAS_LOCATIONS (normalize_location location) = Some c \<Longrightarrow>
   geocode_location http float_of location w = (Inr c, w)"
  by (simp add: geocode_location_def)


text \<open>
  C7. When the key that \<^verbatim>\<open>geocode_location\<close> computes from a location (lower-cased,
  trimmed, the state suffixes removed) is in \<^verbatim>\<open>TEXAS_LOCATIONS\<close>, the function returns the
  coordinates of that entry and leaves the world as it is: no request is sent, and the
  result is the same whatever the geocoding service and \<^verbatim>\<open>float\<close> would do. This is the
  case for every location that, lower-cased and trimmed, is a key of the table followed by
  nothing or by one of \<^verbatim>\<open>", tx"\<close>, \<^verbatim>\<open>" tx"\<close>, \<^verbatim>\<open>", texas"\<close>, \<^verbatim>\<open>" texas"\<close>.
\<close>

theorem static_location_hit:
  "(TEXAS_LOCATIONS (normalize_location location) = Some c \<longrightarrow>
      geocode_location http float_of location w = (Inr c, w)
      \<and> geocode_location http' float_of' location w = geocode_location http float_of location w)
   \<and> ((k, c') \<in> set TEXAS_LOCATIONS_items
        \<and> sfx \<in> set ['''', '', tx'', '' tx'', '', texas'', '' texas'']
        \<and> strip (lower loc) = k @ sfx \<longrightarrow>
      normalize_location loc = k \<and> geocode_location http float_of loc w = (Inr c', w))"
proof (intro conjI impI)
  assume h: "TEXAS_LOCATIONS (normalize_location location) = Some c"
  show a: "geocode_location http float_of location w = (Inr c, w)"
    using h by (rule geocode_location_hit)
  show "geocode_location http' float_of' location w = geocode_location http float_of location w"
    using a geocode_location_hit[OF h, of http' float_of' w] by simp
next
  assume h: "(k, c') \<in> set TEXAS_LOCATIONS_items
        \<and> sfx \<in> set ['''', '', tx'', '' tx'', '', texas'', '' texas'']
        \<and> strip (lower loc) = k @ sfx"
  then have k: "k \<in> set (map fst TEXAS_LOCATIONS_items)" by force
  from h have s: "sfx \<in> set ['''', '', tx'', '' tx'', '', texas'', '' texas'']" by blast
  have "strip_state (k @ sfx) = k"
    using strip_state_recognized k s unfolding list_all_iff by blast
  with h show n: "normalize_location loc = k" by (simp add: normalize_location_def)
  from h have "TEXAS_LOCATIONS k = Some c'" by (blast intro: TEXAS_LOCATIONS_item)
  with n show "geocode_location http float_of loc w = (Inr c', w)"
    by (simp add: geocode_location_hit)
qed


text \<open>Two locations of the table, with a service that is down and with one that answers.\<close>

theorem static_location_hit_witness:
  "geocode_location (\<lambda>w ps. (Inl ''down'', Suc w)) (\<lambda>s. None) ''Dallas, TX'' (0::nat)
     = (Inr (32.7767, -96.7970), 0)
   \<and> geocode_location (\<lambda>w ps. (Inr [\<lparr>hit_lat = ''1'', hit_lon = ''2''\<rparr>], Suc w)) (\<lambda>s. Some 0)
        ''Dallas, TX'' (0::nat)
     = geocode_location (\<lambda>w ps. (Inl ''down'', Suc w)) (\<lambda>s. None) ''Dallas, TX'' (0::nat)
   \<and> geocode_location (\<lambda>w ps. (Inl ''down'', Suc w)) (\<lambda>s. None) '' Fort Worth Texas  '' (0::nat)
     = (Inr (32.7555, -97.3308), 0)"
proof -
  have n: "normalize_location ''Dallas, TX'' = ''dallas''" by code_simp
  have h1: "TEXAS_LOCATIONS (normalize_location ''Dallas, TX'') = Some (32.7767, -96.7970)"
    unfolding n by (simp add: TEXAS_LOCATIONS_def TEXAS_LOCATIONS_items_def)
  have s: "strip (lower '' Fort Worth Texas  '') = ''fort worth'' @ '' texas''" by code_simp
  have h2: "(''fort worth'', (32.7555, -97.3308)) \<in> set TEXAS_LOCATIONS_items
      \<and> '' texas'' \<in> set ['''', '', tx'', '' tx'', '', texas'', '' texas'']
      \<and> strip (lower '' Fort Worth Texas  '') = ''fort worth'' @ '' texas''"
    unfolding s by (simp add: TEXAS_LOCATIONS_items_def)
  note t = static_location_hit[where location = "''Dallas, TX''" and c = "(32.7767, -96.7970)"
      and http = "\<lambda>(w::nat) ps. (Inl ''down'', Suc w)" and float_of = "\<lambda>s. None"
      and http' = "\<lambda>(w::nat) ps. (Inr [\<lparr>hit_lat = ''1'', hit_lon = ''2''\<rparr>], Suc w)"
      and float_of' = "\<lambda>s. Some 0" and w = 0
      and k = "''fort worth''" and c' = "(32.7555, -97.3308)" and sfx = "'' texas''"
      and loc = "'' Fort Worth Texas  ''"]
  from t h1 h2 show ?thesis by blast
qed


lemma geocode_query_prefix: "prefix location (geocode_query location)"
  by (simp add: geocode_query_def)


lemma geocode_message_carries_input:
  "sublist location (''Could not geocode: '' @ geocode_query location
                   @ ''. Use --coords or a major Texas city.'')"
proof -
  from geocode_query_prefix[of location] obtain r where "geocode_query location = location @ r"
    by (auto simp: prefix_def)
  then have "''Could not geocode: '' @ geocode_query location @ ''. Use --coords or a major Texas city.''
      = ''Could not geocode: '' @ location @ (r @ ''. Use --coords or a major Texas city.'')"
    by simp
  then show ?thesis unfolding sublist_def by blast
qed

text \<open>
  C5. When the key of a location is not in the table and the geocoding request ends in a
  \<^verbatim>\<open>RequestException\<close> (timeout, connection failure, non-2xx status) or answers with an
  empty list, \<^verbatim>\<open>geocode_location\<close> raises its own error, whose message is
  \<^verbatim>\<open>Could not geocode: \<close>, the location that was sent, and the hint to use \<^verbatim>\<open>--coords\<close>; no
  network exception leaves the function. The message holds the input: the location sent
  is the input, followed by \<^verbatim>\<open>", TX"\<close> when the input mentions neither \<^verbatim>\<open>tx\<close> nor
  \<^verbatim>\<open>texas\<close>.
\<close>

theorem geocode_failure_is_location_not_found:
  "TEXAS_LOCATIONS (normalize_location location) = None
   \<and> (http w (geocode_params (geocode_query location)) = (Inl e, w')
        \<or> http w (geocode_params (geocode_query location)) = (Inr [], w'))
   \<longrightarrow> geocode_location http float_of location w
         = (Inl (LocationNotFound (''Could not geocode: '' @ geocode_query location
                   @ ''. Use --coords or a major Texas city.'')), w')
       \<and> sublist location (''Could not geocode: '' @ geocode_query location
                   @ ''. Use --coords or a major Texas city.'')
       \<and> prefix location (geocode_query location)
       \<and> (geocode_query location = location \<or> geocode_query location = location @ '', TX'')"
proof (intro impI conjI)
  assume h: "TEXAS_LOCATIONS (normalize_location location) = None
   \<and> (http w (geocode_params (geocode_query location)) = (Inl e, w')
        \<or> http w (geocode_params (geocode_query location)) = (Inr [], w'))"
  then have n: "TEXAS_LOCATIONS (normalize_location location) = None" by blast
  from h consider "http w (geocode_params (geocode_query location)) = (Inl e, w')"
    | "http w (geocode_params (geocode_query location)) = (Inr [], w')" by blast
  then show "geocode_location http float_of location w
         = (Inl (LocationNotFound (''Could not geocode: '' @ geocode_query location
                   @ ''. Use --coords or a major Texas city.'')), w')"
    by cases (simp_all add: geocode_location_def n Let_def)
  show "sublist location (''Could not geocode: '' @ geocode_query location
                   @ ''. Use --coords or a major Texas city.'')"
    by (rule geocode_message_carries_input)
  show "prefix location (geocode_query location)" by (rule geocode_query_prefix)
  show "geocode_query location = location \<or> geocode_query location = location @ '', TX''"
    by (simp add: geocode_query_def)
qed

text \<open>A misspelt city with a service that times out, and an unknown place with a service
  that finds nothing.\<close>

theorem geocode_failure_is_location_not_found_witness:
  "geocode_location (\<lambda>w ps. (Inl ''timeout'', Suc w)) (\<lambda>s. None) ''Houstn'' (0::nat)
     = (Inl (LocationNotFound ''Could not geocode: Houstn, TX. Use --coords or a major Texas city.''),
        Suc 0)
   \<and> geocode_location (\<lambda>w ps. (Inr [], Suc w)) (\<lambda>s. None) ''Austin Heights, Texas'' (0::nat)
     = (Inl (LocationNotFound
          ''Could not geocode: Austin Heights, Texas. Use --coords or a major Texas city.''),
        Suc 0)"
proof -
  have n1: "normalize_location ''Houstn'' = ''houstn''"
    and n2: "normalize_location ''Austin Heights, Texas'' = ''austin heights''"
    and q1: "geocode_query ''Houstn'' = ''Houstn, TX''"
    and q2: "geocode_query ''Austin Heights, Texas'' = ''Austin Heights, Texas''"
    by code_simp+
  have m1: "TEXAS_LOCATIONS (normalize_location ''Houstn'') = None"
    unfolding n1 by (simp add: TEXAS_LOCATIONS_def TEXAS_LOCATIONS_items_def)
  have m2: "TEXAS_LOCATIONS (normalize_location ''Austin Heights, Texas'') = None"
    unfolding n2 by (simp add: TEXAS_LOCATIONS_def TEXAS_LOCATIONS_items_def)
  have h1: "TEXAS_LOCATIONS (normalize_location ''Houstn'') = None
      \<and> ((\<lambda>(w::nat) (ps::params). (Inl ''timeout'' :: string + geo_hit list, Suc w)) 0
             (geocode_params (geocode_query ''Houstn'')) = (Inl ''timeout'', Suc 0)
          \<or> (\<lambda>(w::nat) (ps::params). (Inl ''timeout'' :: string + geo_hit list, Suc w)) 0
             (geocode_params (geocode_query ''Houstn'')) = (Inr [], Suc 0))"
    using m1 by simp
  have h2: "TEXAS_LOCATIONS (normalize_location ''Austin Heights, Texas'') = None
      \<and> ((\<lambda>(w::nat) (ps::params). (Inr [] :: string + geo_hit list, Suc w)) 0
             (geocode_params (geocode_query ''Austin Heights, Texas'')) = (Inl [], Suc 0)
          \<or> (\<lambda>(w::nat) (ps::params). (Inr [] :: string + geo_hit list, Suc w)) 0
             (geocode_params (geocode_query ''Austin Heights, Texas'')) = (Inr [], Suc 0))"
    using m2 by simp
  have c1: "geocode_location (\<lambda>w ps. (Inl ''timeout'', Suc w)) (\<lambda>s. None) ''Houstn'' (0::nat)
     = (Inl (LocationNotFound (''Could not geocode: '' @ geocode_query ''Houstn''
                   @ ''. Use --coords or a major Texas city.'')), Suc 0)"
    using geocode_failure_is_location_not_found[where location = "''Houstn''"
        and http = "\<lambda>(w::nat) ps. (Inl ''timeout'', Suc w)" and w = 0 and e = "''timeout''"
        and w' = "Suc 0" and float_of = "\<lambda>s. None"] h1
    by blast
  have c2: "geocode_location (\<lambda>w ps. (Inr [], Suc w)) (\<lambda>s. None) ''Austin Heights, Texas'' (0::nat)
     = (Inl (LocationNotFound (''Could not geocode: '' @ geocode_query ''Austin Heights, Texas''
                   @ ''. Use --coords or a major Texas city.'')), Suc 0)"
    using geocode_failure_is_location_not_found[where location = "''Austin Heights, Texas''"
        and http = "\<lambda>(w::nat) ps. (Inr [], Suc w)" and w = 0 and e = "[]"
        and w' = "Suc 0" and float_of = "\<lambda>s. None"] h2
    by blast
  from c1 c2 show ?thesis unfolding q1 q2 by simp
qed

section \<open>Properties of the link generator\<close>

lemma app_generate_bcbstx_urls_eq:
  "app_generate_bcbstx_urls fstr nm lat lon radius = generate_bcbstx_urls fstr nm lat lon radius"
  by (simp add: app_generate_bcbstx_urls_def generate_bcbstx_urls_def)

lemma of_char_lt_256: "(of_char c :: nat) < 256"
  by (cases c) (simp add: of_char_def horner_sum_eq_sum)

lemma digit_val_char_of: "(d::nat) < 10 \<Longrightarrow> digit_val (char_of (48 + d)) = d"
  by (simp add: digit_val_def)

lemma is_digit_char_of: "(d::nat) < 10 \<Longrightarrow> is_digit (char_of (48 + d))"
  by (simp add: is_digit_def)

lemma dec_nat_snoc: "dec_nat (ds @ [c]) = 10 * dec_nat ds + digit_val c"
  by (simp add: dec_nat_def)

lemma digits10_small: "n < 10 \<Longrightarrow> digits10 n = [char_of (48 + n)]"
  by (subst digits10.simps) simp

lemma digits10_large:
  "\<not> n < 10 \<Longrightarrow> digits10 n = digits10 (n div 10) @ [char_of (48 + n mod 10)]"
  by (subst digits10.simps) simp

lemma dec_nat_digits10: "dec_nat (digits10 n) = n"
proof (induction n rule: digits10.induct)
  case (1 n)
  show ?case
  proof (cases "n < 10")
    case True
    then show ?thesis by (simp add: digits10_small dec_nat_def digit_val_char_of)
  next
    case False
    then show ?thesis
      using 1 by (simp add: digits10_large dec_nat_snoc digit_val_char_of)
  qed
qed

lemma digits10_digits: "list_all is_digit (digits10 n)"
proof (induction n rule: digits10.induct)
  case (1 n)
  show ?case
  proof (cases "n < 10")
    case True
    then show ?thesis by (simp add: digits10_small is_digit_char_of)
  next
    case False
    then show ?thesis using 1 by (simp add: digits10_large is_digit_char_of)
  qed
qed

lemma digits10_not_Nil: "digits10 n \<noteq> []"
  by (cases "n < 10") (simp_all add: digits10_small digits10_large)

lemma digits10_hd: "hd (digits10 n) = CHR ''0'' \<Longrightarrow> n = 0"
proof (induction n rule: digits10.induct)
  case (1 n)
  show ?case
  proof (cases "n < 10")
    case True
    with 1(2) have "char_of (48 + n) = (CHR ''0'' :: char)" by (simp add: digits10_small)
    then have "digit_val (char_of (48 + n)) = digit_val CHR ''0''" by simp
    with True show ?thesis by (simp add: digit_val_char_of) (simp add: digit_val_def)
  next
    case False
    with 1(2) have "hd (digits10 (n div 10)) = CHR ''0''"
      by (simp add: digits10_large digits10_not_Nil)
    with 1(1) False have "n div 10 = 0" by simp
    with False show ?thesis by simp
  qed
qed

lemma digits10_no_point: "c \<in> set (digits10 n) \<Longrightarrow> is_digit c"
  using digits10_digits[of n] by (simp add: list_all_iff)

lemma int_str_nonneg:
  "0 \<le> i \<Longrightarrow> list_all is_digit (int_str i) \<and> int (dec_nat (int_str i)) = i
     \<and> signed_val (int_str i) = i \<and> (hd (int_str i) = CHR ''0'' \<longrightarrow> i = 0)"
proof -
  assume i: "0 \<le> i"
  then have s: "int_str i = digits10 (nat i)" by (simp add: int_str_def)
  have d: "is_digit (hd (digits10 (nat i)))"
    using digits10_no_point[of "hd (digits10 (nat i))" "nat i"] digits10_not_Nil[of "nat i"]
    by simp
  have "hd (digits10 (nat i)) \<noteq> CHR ''-''"
  proof
    assume "hd (digits10 (nat i)) = CHR ''-''"
    with d show False by (simp add: is_digit_def)
  qed
  then have "signed_val (digits10 (nat i)) = int (dec_nat (digits10 (nat i)))"
    using digits10_not_Nil[of "nat i"] by (cases "digits10 (nat i)") (simp_all add: signed_val_def)
  with i show ?thesis
    using digits10_hd[of "nat i"] by (auto simp: s digits10_digits dec_nat_digits10)
qed

lemma int_str_neg: "i < 0 \<Longrightarrow> int_str i = CHR ''-'' # int_str (- i) \<and> signed_val (int_str i) = i"
  by (simp add: int_str_def signed_val_def dec_nat_digits10)

lemma frac_val_Cons: "frac_val (c # ds) = (real (digit_val c) + frac_val ds) / 10"
  by (simp add: frac_val_def)

lemma frac_digits_val:
  "0 \<le> f \<Longrightarrow> f < 1 \<Longrightarrow> f * 10 ^ k \<in> \<int> \<Longrightarrow> frac_val (frac_digits k f) = f"
proof (induction k arbitrary: f)
  case 0
  then have "f \<in> \<int>" by simp
  then obtain z where z: "f = of_int z" by (auto elim: Ints_cases)
  with 0 have "z = 0" by simp
  with z show ?case by (simp add: frac_val_def)
next
  case (Suc k)
  show ?case
  proof (cases "f = 0")
    case True
    then show ?thesis by (simp add: frac_val_def)
  next
    case False
    define d where "d = \<lfloor>10 * f\<rfloor>"
    define g where "g = 10 * f - of_int d"
    have d0: "0 \<le> d" using Suc.prems(1) by (simp add: d_def)
    have "10 * f < 10" using Suc.prems(2) by simp
    then have d9: "d < 10" unfolding d_def by (simp add: floor_less_iff)
    have g0: "0 \<le> g" unfolding g_def d_def by simp
    have g1: "g < 1" unfolding g_def d_def by linarith
    have "g * 10 ^ k = f * 10 ^ Suc k - of_int d * 10 ^ k"
      by (simp add: g_def algebra_simps)
    then have gi: "g * 10 ^ k \<in> \<int>" using Suc.prems(3) by simp
    have ih: "frac_val (frac_digits k g) = g" using g0 g1 gi by (rule Suc.IH)
    have nd: "nat d < 10" using d0 d9 by simp
    have "frac_digits (Suc k) f = char_of (48 + nat d) # frac_digits k g"
      using False by (simp add: d_def g_def)
    then have "frac_val (frac_digits (Suc k) f) = (real (nat d) + g) / 10"
      by (simp add: frac_val_Cons ih digit_val_char_of[OF nd])
    also have "\<dots> = f" using d0 by (simp add: g_def)
    finally show ?thesis .
  qed
qed

lemma point_not_digit: "\<not> is_digit CHR ''.''"
  by (simp add: is_digit_def)

lemma point_value_digits10:
  "point_value (digits10 n @ CHR ''.'' # ds) = real n + frac_val ds"
proof -
  have "\<forall>c \<in> set (digits10 n). c \<noteq> CHR ''.''"
    using digits10_no_point point_not_digit by blast
  then have "takeWhile (\<lambda>c. c \<noteq> CHR ''.'') (digits10 n @ CHR ''.'' # ds) = digits10 n"
    and "dropWhile (\<lambda>c. c \<noteq> CHR ''.'') (digits10 n @ CHR ''.'' # ds) = CHR ''.'' # ds"
    by (simp_all add: takeWhile_tail dropWhile_append3)
  then show ?thesis by (simp add: point_value_def dec_nat_digits10)
qed

lemma pos_float_str_positional:
  assumes "1 / 10 ^ 4 \<le> x" "x < 10 ^ 16" "x * 10 ^ 20 \<in> \<int>"
  shows "point_value (pos_float_str x) = x \<and> hd (pos_float_str x) \<noteq> CHR ''-''
         \<and> pos_float_str x \<noteq> []"
proof -
  define f where "f = x - of_int \<lfloor>x\<rfloor>"
  define ds where "ds = frac_digits 20 f"
  have "(0::real) < 1 / 10 ^ 4" by simp
  with assms(1) have x0: "0 < x" by linarith
  have f0: "0 \<le> f" and f1: "f < 1" unfolding f_def by linarith+
  have "f * 10 ^ 20 = x * 10 ^ 20 - of_int \<lfloor>x\<rfloor> * 10 ^ 20" by (simp add: f_def algebra_simps)
  then have "f * 10 ^ 20 \<in> \<int>" using assms(3) by simp
  with f0 f1 have v: "frac_val ds = f" unfolding ds_def by (rule frac_digits_val)
  have v': "frac_val (if ds = [] then ''0'' else ds) = f"
    using v by (auto simp: frac_val_def digit_val_def)
  have p: "pos_float_str x
      = digits10 (nat \<lfloor>x\<rfloor>) @ CHR ''.'' # (if ds = [] then ''0'' else ds)"
    using assms(1,2) x0 by (simp add: pos_float_str_def f_def ds_def Let_def)
  have "point_value (pos_float_str x) = real (nat \<lfloor>x\<rfloor>) + f"
    unfolding p by (simp only: point_value_digits10 v')
  also have "\<dots> = x" using x0 by (simp add: f_def)
  finally have a: "point_value (pos_float_str x) = x" .
  have "is_digit (hd (digits10 (nat \<lfloor>x\<rfloor>)))"
    using digits10_no_point[of "hd (digits10 (nat \<lfloor>x\<rfloor>))" "nat \<lfloor>x\<rfloor>"]
      digits10_not_Nil[of "nat \<lfloor>x\<rfloor>"] by simp
  then have "hd (digits10 (nat \<lfloor>x\<rfloor>)) \<noteq> CHR ''-''" by (auto simp: is_digit_def)
  then have b: "hd (pos_float_str x) \<noteq> CHR ''-''"
    unfolding p using digits10_not_Nil[of "nat \<lfloor>x\<rfloor>"] by simp
  have c: "pos_float_str x \<noteq> []" unfolding p using digits10_not_Nil by simp
  from a b c show ?thesis by blast
qed

lemma decimal_value_pos:
  "s \<noteq> [] \<Longrightarrow> hd s \<noteq> CHR ''-'' \<Longrightarrow> decimal_value s = point_value s"
  by (cases s) (simp_all add: decimal_value_def)

lemma float_str_exact:
  assumes "x * 10 ^ 20 \<in> \<int>" and "x = 0 \<or> (1 / 10 ^ 4 \<le> \<bar>x\<bar> \<and> \<bar>x\<bar> < 10 ^ 16)"
  shows "decimal_value (float_str x) = x"
proof -
  consider "x = 0" | "0 < x" "1 / 10 ^ 4 \<le> x" "x < 10 ^ 16"
    | "x < 0" "1 / 10 ^ 4 \<le> - x" "- x < 10 ^ 16"
    using assms(2) by (cases "0 \<le> x") auto
  then show ?thesis
  proof cases
    case 1
    have "decimal_value ''0.0'' = 0"
      by (simp add: decimal_value_def point_value_def dec_nat_def frac_val_def digit_val_def)
    with 1 show ?thesis by (simp add: float_str_def pos_float_str_def)
  next
    case 2
    from pos_float_str_positional[OF 2(2,3) assms(1)] 2(1) show ?thesis
      by (simp add: float_str_def decimal_value_pos)
  next
    case 3
    have "(- x) * 10 ^ 20 \<in> \<int>" using assms(1) by (metis Ints_minus mult_minus_left)
    from pos_float_str_positional[OF 3(2,3) this] 3(1) show ?thesis
      by (simp add: float_str_def decimal_value_def)
  qed
qed

lemma generate_bcbstx_urls_explicit:
  "generate_bcbstx_urls fstr nm lat lon radius =
     [(''blue_advantage_hmo'', ''Blue Advantage HMO'',
       ''https://my.providerfinderonline.com/search/name/'' @ quote nm
       @ ''?ci=tx-blueadvantage-retail&network_id=1000128&geo_location='' @ fstr lat @ '',''
       @ fstr lon @ ''&locale=en&corp_code=TX&radius='' @ int_str radius),
      (''my_blue_health'', ''My Blue Health'',
       ''https://my.providerfinderonline.com/search/name/'' @ quote nm
       @ ''?ci=tx-myblue-health&network_id=240000127&geo_location='' @ fstr lat @ '',''
       @ fstr lon @ ''&locale=en&corp_code=TX&radius='' @ int_str radius)]"
  by (simp add: generate_bcbstx_urls_def BCBSTX_SEARCH_URLS_def format_url_def)

lemma template_texts:
  "map (\<lambda>(key, label, tmpl). template_text tmpl) BCBSTX_SEARCH_URLS =
     [''https://my.providerfinderonline.com/search/name/{query}?ci=tx-blueadvantage-retail&network_id=1000128&geo_location={lat},{lon}&locale=en&corp_code=TX&radius={radius}'',
      ''https://my.providerfinderonline.com/search/name/{query}?ci=tx-myblue-health&network_id=240000127&geo_location={lat},{lon}&locale=en&corp_code=TX&radius={radius}'']"
  by (simp add: BCBSTX_SEARCH_URLS_def template_text_def field_name_def)

lemma quote_Nil: "quote [] = []"
  by (simp add: quote_def)

lemma quote_append: "quote (xs @ ys) = quote xs @ quote ys"
  by (simp add: quote_def)

lemma quote_kept:
  "(65 \<le> (of_char c :: nat) \<and> (of_char c :: nat) \<le> 90)
   \<or> (97 \<le> (of_char c :: nat) \<and> (of_char c :: nat) \<le> 122)
   \<or> (48 \<le> (of_char c :: nat) \<and> (of_char c :: nat) \<le> 57)
   \<or> c \<in> set ''_.-~/'' \<Longrightarrow> quote [c] = [c]"
  by (auto simp: quote_def quote_char_def always_safe_def)

lemma quote_encoded:
  "\<not> ((65 \<le> (of_char c :: nat) \<and> (of_char c :: nat) \<le> 90)
      \<or> (97 \<le> (of_char c :: nat) \<and> (of_char c :: nat) \<le> 122)
      \<or> (48 \<le> (of_char c :: nat) \<and> (of_char c :: nat) \<le> 57)
      \<or> c \<in> set ''_.-~/'') \<Longrightarrow>
   quote [c] = (if (of_char c :: nat) < 128 then percent (of_char c)
                else percent (192 + of_char c div 64) @ percent (128 + of_char c mod 64))"
  by (auto simp: quote_def quote_char_def always_safe_def utf8_def Let_def)

lemma percent_explicit:
  "b < 256 \<Longrightarrow>
   percent b = [CHR ''%'', ''0123456789ABCDEF'' ! (b div 16), ''0123456789ABCDEF'' ! (b mod 16)]"
proof -
  assume "b < 256"
  then have "b div 16 < 16" by simp
  then have "(b div 16) mod 16 = b div 16" by simp
  then show ?thesis by (simp add: percent_def hex_digit_def)
qed

lemma hex_digit_safe: "always_safe (hex_digit n)"
proof -
  have "list_all always_safe ''0123456789ABCDEF''" by (simp add: always_safe_def)
  then have "\<forall>i < 16. always_safe (''0123456789ABCDEF'' ! i)"
    unfolding list_all_length by simp
  then show ?thesis unfolding hex_digit_def by simp
qed

lemma quote_char_safe: "list_all (\<lambda>c. always_safe c \<or> c = CHR ''/'' \<or> c = CHR ''%'') (quote_char c)"
  by (simp add: quote_char_def utf8_def percent_def hex_digit_safe Let_def)

lemma quote_safe: "list_all (\<lambda>c. always_safe c \<or> c = CHR ''/'' \<or> c = CHR ''%'') (quote nm)"
  unfolding quote_def by (induction nm) (simp_all add: quote_char_safe)

lemma quote_no_blank: "CHR '' '' \<notin> set (quote nm)"
proof
  assume "CHR '' '' \<in> set (quote nm)"
  with quote_safe[of nm] have "always_safe CHR '' '' \<or> CHR '' '' = CHR ''/'' \<or> CHR '' '' = CHR ''%''"
    unfolding list_all_iff by blast
  then show False by (simp add: always_safe_def)
qed

lemma quote_examples:
  "quote ''John Smith'' = ''John%20Smith''"
  "quote (''Jos'' @ [CHR 0xE9]) = ''Jos%C3%A9''"
  "quote ''O'Neil, J./x~y_z-1.%'' = ''O%27Neil%2C%20J./x~y_z-1.%25''"
  by code_simp+

lemma int_str_examples: "int_str 25 = ''25''" "int_str 0 = ''0''" "int_str (- 7) = ''-7''"
  "int_str 100 = ''100''"
  by code_simp+

lemma float_str_examples:
  "float_str 32.78 = ''32.78''" "float_str (- 96.80) = ''-96.8''"
  "float_str 32.7767 = ''32.7767''" "float_str (- 96.7970) = ''-96.797''"
  "float_str 0 = ''0.0''" "float_str 32 = ''32.0''" "float_str 0.0001 = ''0.0001''"
  "float_str 0.00005 = ''5e-05''" "float_str (- 0.00000015) = ''-1.5e-07''"
  by code_simp+

lemma generate_uhc_urls_verbatim: "generate_uhc_urls = UHC_SEARCH_URLS"
  by (simp add: generate_uhc_urls_def UHC_SEARCH_URLS_def)

lemma reading_examples: "signed_val ''25'' = 25" "signed_val ''-7'' = - 7"
  "decimal_value ''-96.8'' = - 96.8" "decimal_value ''32.78'' = 32.78"
  by (simp_all add: signed_val_def decimal_value_def point_value_def dec_nat_def frac_val_def
      digit_val_def)

text \<open>
  C8. For every doctor name, coordinates and radius, \<^verbatim>\<open>generate_bcbstx_urls\<close> (the same in
  both files) returns the two configured links, each URL being its template (those of the
  source) with \<^verbatim>\<open>quote(name)\<close>, \<^verbatim>\<open>str(lat)\<close>, \<^verbatim>\<open>str(lon)\<close> and \<^verbatim>\<open>str(radius)\<close> in the places of the
  four fields.

  \<^item> \<^verbatim>\<open>quote\<close> works character by character: ASCII letters, digits and \<^verbatim>\<open>_.-~/\<close> are kept, every
    other character becomes \<^verbatim>\<open>%XX\<close> for each byte of its UTF-8 encoding, in upper-case
    hexadecimal. So the encoded name has unreserved characters, \<^verbatim>\<open>/\<close> and \<^verbatim>\<open>%\<close> only, and no
    blank: \<^verbatim>\<open>John Smith\<close> becomes \<^verbatim>\<open>John%20Smith\<close>, \<^verbatim>\<open>Jos\<close> followed by U+00E9 becomes \<^verbatim>\<open>Jos%C3%A9\<close>.
  \<^item> The text of the radius is its decimal numeral: digits only (with \<^verbatim>\<open>-\<close> in front of a
    negative one), no leading zero, and read back it is the radius.
  \<^item> The text of a coordinate is the decimal numeral Python prints for it; read back it is
    the coordinate, exactly, for every coordinate with at most twenty decimals that Python
    prints without exponent (zero, or of magnitude from 0.0001 up to 10^16).
  \<^item> For \<^verbatim>\<open>"John Smith"\<close>, radius 25 and the coordinates (32.78, -96.80) the two URLs are given
    in full: they contain \<^verbatim>\<open>John%20Smith\<close>, \<^verbatim>\<open>geo_location=32.78,-96.8\<close> and \<^verbatim>\<open>radius=25\<close>.
  \<^item> \<^verbatim>\<open>generate_uhc_urls\<close> takes no argument and returns \<^verbatim>\<open>UHC_SEARCH_URLS\<close> as it is, in every
    bundle of \<^verbatim>\<open>search\<close>.

  Neither function takes the service or the state of the world: they send no request.
\<close>

theorem link_generator_contract:
  "generate_bcbstx_urls float_str nm lat lon radius =
     [(''blue_advantage_hmo'', ''Blue Advantage HMO'',
       ''https://my.providerfinderonline.com/search/name/'' @ quote nm
       @ ''?ci=tx-blueadvantage-retail&network_id=1000128&geo_location='' @ float_str lat @ '',''
       @ float_str lon @ ''&locale=en&corp_code=TX&radius='' @ int_str radius),
      (''my_blue_health'', ''My Blue Health'',
       ''https://my.providerfinderonline.com/search/name/'' @ quote nm
       @ ''?ci=tx-myblue-health&network_id=240000127&geo_location='' @ float_str lat @ '',''
       @ float_str lon @ ''&locale=en&corp_code=TX&radius='' @ int_str radius)]
   \<and> app_generate_bcbstx_urls float_str nm lat lon radius
       = generate_bcbstx_urls float_str nm lat lon radius
   \<and> map (\<lambda>(key, label, tmpl). template_text tmpl) BCBSTX_SEARCH_URLS =
     [''https://my.providerfinderonline.com/search/name/{query}?ci=tx-blueadvantage-retail&network_id=1000128&geo_location={lat},{lon}&locale=en&corp_code=TX&radius={radius}'',
      ''https://my.providerfinderonline.com/search/name/{query}?ci=tx-myblue-health&network_id=240000127&geo_location={lat},{lon}&locale=en&corp_code=TX&radius={radius}'']
   \<and> quote [] = [] \<and> quote (xs @ ys) = quote xs @ quote ys
   \<and> ((65 \<le> (of_char c1 :: nat) \<and> (of_char c1 :: nat) \<le> 90)
        \<or> (97 \<le> (of_char c1 :: nat) \<and> (of_char c1 :: nat) \<le> 122)
        \<or> (48 \<le> (of_char c1 :: nat) \<and> (of_char c1 :: nat) \<le> 57)
        \<or> c1 \<in> set ''_.-~/'' \<longrightarrow> quote [c1] = [c1])
   \<and> (\<not> ((65 \<le> (of_char c2 :: nat) \<and> (of_char c2 :: nat) \<le> 90)
           \<or> (97 \<le> (of_char c2 :: nat) \<and> (of_char c2 :: nat) \<le> 122)
           \<or> (48 \<le> (of_char c2 :: nat) \<and> (of_char c2 :: nat) \<le> 57)
           \<or> c2 \<in> set ''_.-~/'') \<longrightarrow>
        quote [c2] = (if (of_char c2 :: nat) < 128 then percent (of_char c2)
                      else percent (192 + of_char c2 div 64) @ percent (128 + of_char c2 mod 64)))
   \<and> (b < 256 \<longrightarrow>
        percent b = [CHR ''%'', ''0123456789ABCDEF'' ! (b div 16), ''0123456789ABCDEF'' ! (b mod 16)])
   \<and> list_all (\<lambda>c. always_safe c \<or> c = CHR ''/'' \<or> c = CHR ''%'') (quote nm)
   \<and> CHR '' '' \<notin> set (quote nm)
   \<and> quote ''John Smith'' = ''John%20Smith'' \<and> quote (''Jos'' @ [CHR 0xE9]) = ''Jos%C3%A9''
   \<and> (0 \<le> i1 \<longrightarrow> list_all is_digit (int_str i1) \<and> signed_val (int_str i1) = i1
        \<and> (hd (int_str i1) = CHR ''0'' \<longrightarrow> i1 = 0))
   \<and> (i2 < 0 \<longrightarrow> int_str i2 = CHR ''-'' # int_str (- i2) \<and> signed_val (int_str i2) = i2)
   \<and> int_str 25 = ''25'' \<and> signed_val ''25'' = 25 \<and> signed_val ''-7'' = - 7
   \<and> (x * 10 ^ 20 \<in> \<int> \<and> (x = 0 \<or> (1 / 10 ^ 4 \<le> \<bar>x\<bar> \<and> \<bar>x\<bar> < 10 ^ 16))
        \<longrightarrow> decimal_value (float_str x) = x)
   \<and> decimal_value ''-96.8'' = - 96.8 \<and> decimal_value ''32.78'' = 32.78
   \<and> float_str 32.78 = ''32.78'' \<and> float_str (- 96.80) = ''-96.8''
   \<and> float_str 32.7767 = ''32.7767'' \<and> float_str (- 96.7970) = ''-96.797''
   \<and> float_str 0 = ''0.0'' \<and> float_str 32 = ''32.0'' \<and> float_str 0.0001 = ''0.0001''
   \<and> float_str 0.00005 = ''5e-05'' \<and> float_str (- 0.00000015) = ''-1.5e-07''
   \<and> generate_bcbstx_urls float_str ''John Smith'' 32.78 (- 96.80) 25 =
     [(''blue_advantage_hmo'', ''Blue Advantage HMO'',
       ''https://my.providerfinderonline.com/search/name/John%20Smith?ci=tx-blueadvantage-retail&network_id=1000128&geo_location=32.78,-96.8&locale=en&corp_code=TX&radius=25''),
      (''my_blue_health'', ''My Blue Health'',
       ''https://my.providerfinderonline.com/search/name/John%20Smith?ci=tx-myblue-health&network_id=240000127&geo_location=32.78,-96.8&locale=en&corp_code=TX&radius=25'')]
   \<and> generate_uhc_urls = UHC_SEARCH_URLS
   \<and> map uhc_urls (fst (app_search_each http fstr ds lat lon radius cty w))
       = replicate (length ds) UHC_SEARCH_URLS"
proof (intro conjI impI)
  show "generate_bcbstx_urls float_str ''John Smith'' 32.78 (- 96.80) 25 =
     [(''blue_advantage_hmo'', ''Blue Advantage HMO'',
       ''https://my.providerfinderonline.com/search/name/John%20Smith?ci=tx-blueadvantage-retail&network_id=1000128&geo_location=32.78,-96.8&locale=en&corp_code=TX&radius=25''),
      (''my_blue_health'', ''My Blue Health'',
       ''https://my.providerfinderonline.com/search/name/John%20Smith?ci=tx-myblue-health&network_id=240000127&geo_location=32.78,-96.8&locale=en&corp_code=TX&radius=25'')]"
    by (simp only: generate_bcbstx_urls_explicit quote_examples int_str_examples
        float_str_examples) simp
  show "map uhc_urls (fst (app_search_each http fstr ds lat lon radius cty w))
       = replicate (length ds) UHC_SEARCH_URLS"
    by (induction ds arbitrary: w) (simp_all add: split_beta generate_uhc_urls_verbatim)
  show "quote [c1] = [c1]"
    if "(65 \<le> (of_char c1 :: nat) \<and> (of_char c1 :: nat) \<le> 90)
        \<or> (97 \<le> (of_char c1 :: nat) \<and> (of_char c1 :: nat) \<le> 122)
        \<or> (48 \<le> (of_char c1 :: nat) \<and> (of_char c1 :: nat) \<le> 57)
        \<or> c1 \<in> set ''_.-~/''"
    using that by (rule quote_kept)
  show "quote [c2] = (if (of_char c2 :: nat) < 128 then percent (of_char c2)
                      else percent (192 + of_char c2 div 64) @ percent (128 + of_char c2 mod 64))"
    if "\<not> ((65 \<le> (of_char c2 :: nat) \<and> (of_char c2 :: nat) \<le> 90)
           \<or> (97 \<le> (of_char c2 :: nat) \<and> (of_char c2 :: nat) \<le> 122)
           \<or> (48 \<le> (of_char c2 :: nat) \<and> (of_char c2 :: nat) \<le> 57)
           \<or> c2 \<in> set ''_.-~/'')"
    using that by (rule quote_encoded)
  show "percent b = [CHR ''%'', ''0123456789ABCDEF'' ! (b div 16), ''0123456789ABCDEF'' ! (b mod 16)]"
    if "b < 256" using that by (rule percent_explicit)
  show "list_all is_digit (int_str i1)" "signed_val (int_str i1) = i1" if "0 \<le> i1"
    using int_str_nonneg[OF that] by blast+
  show "i1 = 0" if "0 \<le> i1" "hd (int_str i1) = CHR ''0''"
    using int_str_nonneg[OF that(1)] that(2) by blast
  show "int_str i2 = CHR ''-'' # int_str (- i2)" "signed_val (int_str i2) = i2" if "i2 < 0"
    using int_str_neg[OF that] by blast+
  show "decimal_value (float_str x) = x"
    if "x * 10 ^ 20 \<in> \<int> \<and> (x = 0 \<or> (1 / 10 ^ 4 \<le> \<bar>x\<bar> \<and> \<bar>x\<bar> < 10 ^ 16))"
    using that float_str_exact by blast
qed (rule generate_bcbstx_urls_explicit app_generate_bcbstx_urls_eq template_texts quote_Nil
      quote_append quote_safe quote_no_blank quote_examples int_str_examples reading_examples
      float_str_examples generate_uhc_urls_verbatim)+

theorem link_generator_contract_witness:
  "quote ''J'' = ''J'' \<and> quote '' '' = percent 32 \<and> percent 32 = ''%20''
   \<and> list_all is_digit (int_str 100) \<and> signed_val (int_str 100) = 100
   \<and> int_str (- 7) = CHR ''-'' # int_str 7 \<and> signed_val (int_str (- 7)) = - 7
   \<and> decimal_value (float_str (- 96.797)) = - 96.797"
proof -
  note t = link_generator_contract[where ?c1.0 = "CHR ''J''" and ?c2.0 = "CHR '' ''" and b = 32
      and ?i1.0 = 100 and ?i2.0 = "- 7" and x = "- 96.797"]
  have h1: "(65 \<le> (of_char CHR ''J'' :: nat) \<and> (of_char CHR ''J'' :: nat) \<le> 90)
        \<or> (97 \<le> (of_char CHR ''J'' :: nat) \<and> (of_char CHR ''J'' :: nat) \<le> 122)
        \<or> (48 \<le> (of_char CHR ''J'' :: nat) \<and> (of_char CHR ''J'' :: nat) \<le> 57)
        \<or> CHR ''J'' \<in> set ''_.-~/''" by simp
  have h2: "\<not> ((65 \<le> (of_char CHR '' '' :: nat) \<and> (of_char CHR '' '' :: nat) \<le> 90)
           \<or> (97 \<le> (of_char CHR '' '' :: nat) \<and> (of_char CHR '' '' :: nat) \<le> 122)
           \<or> (48 \<le> (of_char CHR '' '' :: nat) \<and> (of_char CHR '' '' :: nat) \<le> 57)
           \<or> CHR '' '' \<in> set ''_.-~/'')" by simp
  have h3: "(32::nat) < 256" and h4: "(0::int) \<le> 100" and h5: "(- 7 :: int) < 0" by simp_all
  have "(- 96.797 :: real) * 10 ^ 20 = of_int (- 96797 * 10 ^ 17)" by simp
  then have "(- 96.797 :: real) * 10 ^ 20 \<in> \<int>" by (simp only: Ints_of_int)
  moreover have "(1::real) / 10 ^ 4 \<le> \<bar>- 96.797\<bar> \<and> \<bar>- 96.797 :: real\<bar> < 10 ^ 16" by simp
  ultimately have h6: "(- 96.797 :: real) * 10 ^ 20 \<in> \<int>
      \<and> ((- 96.797 :: real) = 0 \<or> (1 / 10 ^ 4 \<le> \<bar>- 96.797 :: real\<bar> \<and> \<bar>- 96.797 :: real\<bar> < 10 ^ 16))"
    by blast
  note d5 = t[THEN conjunct2, THEN conjunct2, THEN conjunct2, THEN conjunct2, THEN conjunct2]
  note d7 = d5[THEN conjunct2, THEN conjunct2]
  note d12 = d7[THEN conjunct2, THEN conjunct2, THEN conjunct2, THEN conjunct2, THEN conjunct2]
  note d13 = d12[THEN conjunct2]
  note d17 = d13[THEN conjunct2, THEN conjunct2, THEN conjunct2, THEN conjunct2]
  note k1 = d5[THEN conjunct1, THEN mp, OF h1]
  note k2 = d5[THEN conjunct2, THEN conjunct1, THEN mp, OF h2]
  note k3 = d7[THEN conjunct1, THEN mp, OF h3]
  note k4 = d12[THEN conjunct1, THEN mp, OF h4]
  note k5 = d13[THEN conjunct1, THEN mp, OF h5]
  note k6 = d17[THEN conjunct1, THEN mp, OF h6]
  have c1: "quote [CHR ''J''] = [CHR ''J'']" by (rule k1)
  have "quote [CHR '' ''] = (if (of_char CHR '' '' :: nat) < 128 then percent (of_char CHR '' '')
      else percent (192 + of_char CHR '' '' div 64) @ percent (128 + of_char CHR '' '' mod 64))"
    by (rule k2)
  then have c2: "quote '' '' = percent 32" by simp
  have "percent 32 = [CHR ''%'', ''0123456789ABCDEF'' ! (32 div 16), ''0123456789ABCDEF'' ! (32 mod 16)]"
    by (rule k3)
  then have c3: "percent 32 = ''%20''" by simp
  have c4: "list_all is_digit (int_str 100)" and c5: "signed_val (int_str 100) = 100"
    using k4 by blast+
  have "int_str (- 7) = CHR ''-'' # int_str (- (- 7))" using k5 by blast
  then have c6: "int_str (- 7) = CHR ''-'' # int_str 7" by simp
  have c7: "signed_val (int_str (- 7)) = - 7" using k5 by blast
  have c8: "decimal_value (float_str (- 96.797)) = - 96.797" by (rule k6)
  from c1 c2 c3 c4 c5 c6 c7 c8 show ?thesis by blast
qed

section \<open>The two front ends compared\<close>

lemma app_to_entry_eq: "app_to_entry r = to_entry (to_result r)"
  by (simp add: app_to_entry_def to_entry_def to_result_def Let_def)

lemma app_collect_results_eq: "app_collect_results spec rs = map to_entry (collect_results spec rs)"
  by (induction rs) (simp_all add: app_to_entry_eq)

lemma app_search_npi_eq:
  "app_search_npi http nm st cty spec limit w
     = (map to_entry (fst (fst (search_npi http nm st cty spec limit w))),
        snd (search_npi http nm st cty spec limit w))"
  by (simp add: app_search_npi_def search_npi_def app_collect_results_eq
      split: prod.splits sum.splits)

lemma app_search_each_world:
  "snd (app_search_each http fstr ds lat lon radius cty w)
     = snd (check_each http fstr ds lat lon radius cty w)"
  by (induction ds arbitrary: w) (simp_all add: split_beta check_doctor_def app_search_npi_eq)









lemma app_dallas: "app_TEXAS_LOCATIONS ''dallas'' = Some (32.7767, -96.7970)"
  by (simp add: app_TEXAS_LOCATIONS_def app_TEXAS_LOCATIONS_items_def)

lemma lower_dallas: "lower ''dallas'' = ''dallas''"
  by code_simp

lemma app_coords_unknown:
  "app_TEXAS_LOCATIONS (lower loc) = None \<Longrightarrow> app_coords (Some loc) = (32.7767, -96.7970)"
  by (simp add: app_coords_def get_or_def app_dallas)

lemma app_coords_default: "app_coords None = (32.7767, -96.7970)"
  by (simp add: app_coords_def get_or_def app_dallas lower_dallas)

lemma app_search_coords:
  "app_radius args = Some r \<Longrightarrow> app_coords (q_location args) = (la, lo) \<Longrightarrow>
   app_search http fstr args w
     = (Inr (fst (app_search_each http fstr (app_parse_doctors (get_or (q_doctors args) []))
                    la lo r (app_city args) w)),
        snd (app_search_each http fstr (app_parse_doctors (get_or (q_doctors args) []))
                    la lo r (app_city args) w))"
  by (simp add: app_search_def Let_def split_beta)

lemma app_search_bad_radius:
  "app_radius args = None \<Longrightarrow> app_search http fstr args w = (Inl (get_or (q_radius args) []), w)"
  by (simp add: app_search_def)


text \<open>
  C10. When the lower-cased \<^verbatim>\<open>location\<close> parameter of \<^verbatim>\<open>GET /search\<close> is not a key of the
  table of \<^verbatim>\<open>app.py\<close>, the endpoint uses the coordinates of Dallas, (32.7767, -96.7970), and
  answers exactly as it does without the parameter: with the bundles computed at those
  coordinates when the radius is an integer, and with the \<^verbatim>\<open>ValueError\<close> of \<^verbatim>\<open>int\<close> otherwise.
  No location error exists in the endpoint, and it has no geocoding service to call.
\<close>

theorem web_location_fallback:
  "app_TEXAS_LOCATIONS (lower loc) = None \<and> q_location args = Some loc \<longrightarrow>
     app_coords (q_location args) = (32.7767, -96.7970)
     \<and> app_coords (q_location args) = app_coords None
     \<and> app_search http fstr args w = app_search http fstr (args\<lparr>q_location := None\<rparr>) w
     \<and> (app_radius args = Some r \<longrightarrow>
          app_search http fstr args w
            = (Inr (fst (app_search_each http fstr (app_parse_doctors (get_or (q_doctors args) []))
                           32.7767 (-96.7970) r (app_city args) w)),
               snd (app_search_each http fstr (app_parse_doctors (get_or (q_doctors args) []))
                           32.7767 (-96.7970) r (app_city args) w)))
     \<and> (app_radius args = None \<longrightarrow>
          app_search http fstr args w = (Inl (get_or (q_radius args) []), w))"
proof (intro impI conjI)
  assume h: "app_TEXAS_LOCATIONS (lower loc) = None \<and> q_location args = Some loc"
  then show c: "app_coords (q_location args) = (32.7767, -96.7970)"
    by (simp add: app_coords_unknown)
  then show "app_coords (q_location args) = app_coords None"
    by (simp add: app_coords_default)
  show "app_search http fstr args w = app_search http fstr (args\<lparr>q_location := None\<rparr>) w"
    by (simp add: app_search_def c app_coords_default app_radius_def app_city_def Let_def
        split: option.splits)
  show "app_search http fstr args w
            = (Inr (fst (app_search_each http fstr (app_parse_doctors (get_or (q_doctors args) []))
                           32.7767 (-96.7970) r (app_city args) w)),
               snd (app_search_each http fstr (app_parse_doctors (get_or (q_doctors args) []))
                           32.7767 (-96.7970) r (app_city args) w))"
    if "app_radius args = Some r" using that c by (rule app_search_coords)
  show "app_search http fstr args w = (Inl (get_or (q_radius args) []), w)"
    if "app_radius args = None" using that by (rule app_search_bad_radius)
qed

text \<open>The endpoint with \<^verbatim>\<open>location=Garland\<close>, with a good and with a bad radius.\<close>

theorem web_location_fallback_witness:
  "app_coords (Some ''Garland'') = (32.7767, -96.7970)
   \<and> app_search (\<lambda>w ps. (Inr \<lparr>results = Some []\<rparr>, Suc w)) (\<lambda>x. [])
        \<lparr>q_doctors = Some ''Jane Doe'', q_location = Some ''Garland'', q_radius = Some ''10'',
         q_city = None\<rparr> (0::nat)
     = app_search (\<lambda>w ps. (Inr \<lparr>results = Some []\<rparr>, Suc w)) (\<lambda>x. [])
        \<lparr>q_doctors = Some ''Jane Doe'', q_location = None, q_radius = Some ''10'',
         q_city = None\<rparr> (0::nat)
   \<and> fst (app_search (\<lambda>w ps. (Inr \<lparr>results = Some []\<rparr>, Suc w)) (\<lambda>x. [])
        \<lparr>q_doctors = Some ''Jane Doe'', q_location = Some ''Garland'', q_radius = Some ''10'',
         q_city = None\<rparr> (0::nat))
     = Inr (fst (app_search_each (\<lambda>w ps. (Inr \<lparr>results = Some []\<rparr>, Suc w)) (\<lambda>x. [])
              (app_parse_doctors ''Jane Doe'') 32.7767 (-96.7970) 10 None (0::nat)))
   \<and> app_search (\<lambda>w ps. (Inr \<lparr>results = Some []\<rparr>, Suc w)) (\<lambda>x. [])
        \<lparr>q_doctors = Some ''Jane Doe'', q_location = Some ''Garland'', q_radius = Some ''ten'',
         q_city = None\<rparr> (0::nat)
     = (Inl ''ten'', 0)"
proof -
  let ?H = "\<lambda>(w::nat) (ps::params). (Inr \<lparr>results = Some []\<rparr> :: string + npi_data, Suc w)"
  let ?A = "\<lparr>q_doctors = Some ''Jane Doe'', q_location = Some ''Garland'', q_radius = Some ''10'',
         q_city = None\<rparr>"
  let ?B = "\<lparr>q_doctors = Some ''Jane Doe'', q_location = Some ''Garland'', q_radius = Some ''ten'',
         q_city = None\<rparr>"
  have l: "lower ''Garland'' = ''garland''" by code_simp
  have n: "app_TEXAS_LOCATIONS (lower ''Garland'') = None"
    unfolding l by (simp add: app_TEXAS_LOCATIONS_def app_TEXAS_LOCATIONS_items_def)
  have r: "app_radius ?A = Some 10" and c: "app_city ?A = None" and rb: "app_radius ?B = None"
    by code_simp+
  have h: "app_TEXAS_LOCATIONS (lower ''Garland'') = None \<and> q_location ?A = Some ''Garland''"
    and hb: "app_TEXAS_LOCATIONS (lower ''Garland'') = None \<and> q_location ?B = Some ''Garland''"
    using n by simp_all
  note t = web_location_fallback[where loc = "''Garland''" and args = ?A and http = ?H
      and fstr = "\<lambda>x. []" and w = 0 and r = 10]
  note u = web_location_fallback[where loc = "''Garland''" and args = ?B and http = ?H
      and fstr = "\<lambda>x. []" and w = 0 and r = 10]
  have c1: "app_coords (q_location ?A) = (32.7767, -96.7970)" using t h by blast
  have c2: "app_search ?H (\<lambda>x. []) ?A 0 = app_search ?H (\<lambda>x. []) (?A\<lparr>q_location := None\<rparr>) 0"
    using t h by blast
  have c3: "app_search ?H (\<lambda>x. []) ?A 0
      = (Inr (fst (app_search_each ?H (\<lambda>x. []) (app_parse_doctors (get_or (q_doctors ?A) []))
                           32.7767 (-96.7970) 10 (app_city ?A) 0)),
         snd (app_search_each ?H (\<lambda>x. []) (app_parse_doctors (get_or (q_doctors ?A) []))
                           32.7767 (-96.7970) 10 (app_city ?A) 0))"
    using t h r by blast
  have c4: "app_search ?H (\<lambda>x. []) ?B 0 = (Inl (get_or (q_radius ?B) []), 0)"
    using u hb rb by blast
  have d1: "app_coords (Some ''Garland'') = (32.7767, -96.7970)" using c1 by simp
  have d2: "app_search ?H (\<lambda>x. []) ?A 0
      = app_search ?H (\<lambda>x. []) \<lparr>q_doctors = Some ''Jane Doe'', q_location = None,
          q_radius = Some ''10'', q_city = None\<rparr> 0"
    using c2 by simp
  have "fst (app_search ?H (\<lambda>x. []) ?A 0)
      = Inr (fst (app_search_each ?H (\<lambda>x. []) (app_parse_doctors (get_or (q_doctors ?A) []))
                           32.7767 (-96.7970) 10 (app_city ?A) 0))"
    by (simp only: c3 fst_conv)
  then have d3: "fst (app_search ?H (\<lambda>x. []) ?A 0)
      = Inr (fst (app_search_each ?H (\<lambda>x. []) (app_parse_doctors ''Jane Doe'')
                           32.7767 (-96.7970) 10 None 0))"
    by (simp add: c get_or_def)
  have d4: "app_search ?H (\<lambda>x. []) ?B 0 = (Inl ''ten'', 0)"
    using c4 by (simp add: get_or_def)
  from d1 d2 d3 d4 show ?thesis by blast
qed

end
